theory Spec2Isabelle
  imports Complex_Main "HOL-Library.Multiset"
begin

chapter \<open>The model\<close>

section \<open>Strings and numbers of the host language\<close>

text \<open>
  A string of the source is a sequence of UTF-16 code units, each an integer from 0 to
  65535. A literal of the source is written \<open>u16 ''...''\<close>; a character outside
  ASCII is written as its code unit (the dash U+2014 is \<open>[8212]\<close>).
\<close>

type_synonym jsstring = "int list"

definition u16 :: "string \<Rightarrow> jsstring" where
  "u16 s = map of_char s"

text \<open>\<open>text.includes(token)\<close>: the token occurs as a contiguous run.\<close>

fun includesStr :: "jsstring \<Rightarrow> jsstring \<Rightarrow> bool" where
  "includesStr [] tok = (tok = [])"
| "includesStr (c # cs) tok = (take (length tok) (c # cs) = tok \<or> includesStr cs tok)"

text \<open>\<open>String(n)\<close> for an integer \<open>n\<close>, as template strings render \<open>page\<close> and \<open>cont\<close>.\<close>

function digitsOf :: "int \<Rightarrow> jsstring" where
  "digitsOf n = (if n < 10 then [48 + n] else digitsOf (n div 10) @ [48 + n mod 10])"
  by pat_completeness auto
termination
  by (relation "measure nat") auto

definition showInt :: "int \<Rightarrow> jsstring" where
  "showInt i = (if i < 0 then 45 # digitsOf (- i) else digitsOf i)"

text \<open>The number that a string of decimal digits denotes.\<close>

definition digitsValue :: "jsstring \<Rightarrow> int" where
  "digitsValue s = foldl (\<lambda>a c. 10 * a + (c - 48)) 0 s"

text \<open>\<open>Math.round\<close> rounds to the nearest integer, a half towards plus infinity.\<close>

definition mathRound :: "rat \<Rightarrow> int" where
  "mathRound q = \<lfloor>q + 1 / 2\<rfloor>"

text \<open>White space and line terminators, as \<open>trim\<close> and the class \<open>\s\<close> take them.\<close>

definition isWhiteSpace :: "int \<Rightarrow> bool" where
  "isWhiteSpace c =
     (c \<in> {9, 10, 11, 12, 13, 32, 160, 5760, 8232, 8233, 8239, 8287, 12288, 65279}
      \<or> (8192 \<le> c \<and> c \<le> 8202))"

definition trim :: "jsstring \<Rightarrow> jsstring" where
  "trim s = rev (dropWhile isWhiteSpace (rev (dropWhile isWhiteSpace s)))"

text \<open>\<open>replace(/\s+/g, ' ')\<close>: every run of white space becomes one space.\<close>

function collapseSpaces :: "jsstring \<Rightarrow> jsstring" where
  "collapseSpaces [] = []"
| "collapseSpaces (c # cs) =
     (if isWhiteSpace c then 32 # collapseSpaces (dropWhile isWhiteSpace cs)
      else c # collapseSpaces cs)"
  by pat_completeness auto
termination
  by (relation "measure length") (auto simp: less_Suc_eq_le length_dropWhile_le)

definition trimStart :: "jsstring \<Rightarrow> jsstring" where
  "trimStart s = dropWhile isWhiteSpace s"

definition trimEnd :: "jsstring \<Rightarrow> jsstring" where
  "trimEnd s = rev (dropWhile isWhiteSpace (rev s))"

definition isDigit :: "int \<Rightarrow> bool" where
  "isDigit c = (48 \<le> c \<and> c \<le> 57)"

section \<open>Double arithmetic\<close>

text \<open>
  A number of the source is an IEEE-754 double. The model holds the value of a finite
  double as a rational; the sum and the quotient of two doubles are the exact result
  rounded to the nearest double, ties to the even mantissa (53 bits). Overflow to
  infinity (beyond \<open>2 ^ 1024\<close>) is outside the model.
\<close>

function bitLength :: "int \<Rightarrow> int" where
  "bitLength n = (if n \<le> 0 then 0 else 1 + bitLength (n div 2))"
  by pat_completeness auto
termination
  by (relation "measure nat") auto

definition pow2 :: "int \<Rightarrow> rat" where
  "pow2 e = (if 0 \<le> e then 2 ^ nat e else 1 / 2 ^ nat (- e))"

text \<open>For \<open>q > 0\<close>, the exponent \<open>e\<close> with \<open>2 ^ e \<le> q < 2 ^ (e + 1)\<close>.\<close>

definition floorLog2 :: "rat \<Rightarrow> int" where
  "floorLog2 q =
     (let n = fst (quotient_of q); d = snd (quotient_of q);
          e0 = bitLength n - bitLength d
      in if pow2 e0 \<le> q then e0 else e0 - 1)"

definition roundHalfEven :: "rat \<Rightarrow> int" where
  "roundHalfEven m =
     (let f = \<lfloor>m\<rfloor>; r = m - of_int f
      in if r < 1 / 2 then f else if 1 / 2 < r then f + 1 else if even f then f else f + 1)"

definition roundDouble :: "rat \<Rightarrow> rat" where
  "roundDouble q =
     (if q = 0 then 0
      else (let ulp = pow2 (max (floorLog2 \<bar>q\<bar>) (- 1022) - 52)
            in sgn q * of_int (roundHalfEven (\<bar>q\<bar> / ulp)) * ulp))"

definition dadd :: "rat \<Rightarrow> rat \<Rightarrow> rat" where
  "dadd x y = roundDouble (x + y)"

definition ddiv :: "rat \<Rightarrow> rat \<Rightarrow> rat" where
  "ddiv x y = roundDouble (x / y)"

text \<open>
  A number of the source that need not be finite: what \<open>Number.parseFloat\<close> returns.
  The sign of a zero is not kept.
\<close>

datatype jsnum = Finite rat | NaN | PosInfinity | NegInfinity

definition isFiniteNumber :: "jsnum \<Rightarrow> bool" where
  "isFiniteNumber n = (case n of Finite q \<Rightarrow> True | _ \<Rightarrow> False)"

section \<open>Transaction records (pdfParser.ts)\<close>

text \<open>
  \<open>importe\<close> and \<open>saldo\<close> hold the value of a finite double; \<open>cont\<close> and \<open>page\<close> are
  integers.
\<close>

record TransactionRecord =
  cont :: int
  fecha :: jsstring
  hora :: jsstring
  timestamp :: jsstring
  transaccion :: jsstring
  operador :: jsstring
  equipo :: jsstring
  importe :: rat
  saldo :: rat
  titulo :: jsstring
  perfil :: jsstring
  etapa :: jsstring
  page :: int

text \<open>
  What the code takes from the JavaScript runtime: the Unicode case mappings, the
  normalisation form NFD, \<open>Number.parseFloat\<close>, and the \<open>Date\<close> built from a record (\<open>getRecordDate\<close>
  parses \<open>timestamp\<close>, or \<open>fecha\<close> and \<open>hora\<close>, in the local time zone). A date is its
  \<open>getTime()\<close>, the milliseconds since the epoch; records whose date does not parse
  (an invalid \<open>Date\<close>) are outside the model.
\<close>

record host =
  toLowerCase :: "jsstring \<Rightarrow> jsstring"
  toUpperCase :: "jsstring \<Rightarrow> jsstring"
  normalizeNFD :: "jsstring \<Rightarrow> jsstring"
  parseFloat :: "jsstring \<Rightarrow> jsnum"
  recordTime :: "TransactionRecord \<Rightarrow> int"

definition getRecordDate :: "host \<Rightarrow> TransactionRecord \<Rightarrow> int" where
  "getRecordDate H record = recordTime H record"

definition TEN_HOURS_MS :: int where
  "TEN_HOURS_MS = 10 * 60 * 60 * 1000"

definition DAY_MS :: int where
  "DAY_MS = 24 * 60 * 60 * 1000"

definition RECARGA_TOKEN :: jsstring where "RECARGA_TOKEN = u16 ''recarga''"
definition TITULO_TOKEN :: jsstring where "TITULO_TOKEN = u16 ''titulo''"
definition COMPRA_TOKEN :: jsstring where "COMPRA_TOKEN = u16 ''compra''"

definition isSingleValidation :: "host \<Rightarrow> TransactionRecord \<Rightarrow> bool" where
  "isSingleValidation H record =
     (let text = toLowerCase H (transaccion record) in includesStr text (u16 ''unica''))"

definition isEntryValidation :: "host \<Rightarrow> TransactionRecord \<Rightarrow> bool" where
  "isEntryValidation H record =
     (let text = toLowerCase H (transaccion record)
      in includesStr text (u16 ''entrada'') \<and> \<not> includesStr text (u16 ''recarga''))"

definition isExitValidation :: "host \<Rightarrow> TransactionRecord \<Rightarrow> bool" where
  "isExitValidation H record =
     (let text = toLowerCase H (transaccion record)
      in includesStr text (u16 ''salida'') \<and> \<not> includesStr text (u16 ''recarga''))"

definition isRecargaTransaction :: "host \<Rightarrow> TransactionRecord \<Rightarrow> bool" where
  "isRecargaTransaction H record =
     (let text = toLowerCase H (transaccion record)
      in if text = [] then False
         else if includesStr text RECARGA_TOKEN then True
         else includesStr text COMPRA_TOKEN \<and> includesStr text TITULO_TOKEN)"

definition isWalletRechargeRecord :: "host \<Rightarrow> TransactionRecord \<Rightarrow> bool" where
  "isWalletRechargeRecord H record =
     (let text = toLowerCase H (transaccion record)
      in includesStr text RECARGA_TOKEN \<and> includesStr text (u16 ''monedero''))"

definition isTitleRechargeRecord :: "host \<Rightarrow> TransactionRecord \<Rightarrow> bool" where
  "isTitleRechargeRecord H record =
     (let text = toLowerCase H (transaccion record)
      in if text = [] then False
         else (let isExplicitTitleRecharge =
                     includesStr text RECARGA_TOKEN \<and> \<not> includesStr text (u16 ''monedero'');
                   isCompraTitulo = includesStr text COMPRA_TOKEN \<and> includesStr text TITULO_TOKEN
               in isExplicitTitleRecharge \<or> isCompraTitulo))"

definition getRecordKey :: "TransactionRecord \<Rightarrow> jsstring" where
  "getRecordKey record =
     showInt (page record) @ u16 ''-'' @ showInt (cont record) @ u16 ''-'' @ timestamp record"

section \<open>Journey builder (buildJourneyBlocks)\<close>

datatype journey_kind = Viaje | ViajeUnico | Recarga | Otros

record JourneyBlock =
  id :: jsstring
  kind :: journey_kind
  start :: TransactionRecord
  endRecord :: "TransactionRecord option"
  durationMinutes :: "int option"
  records :: "TransactionRecord list"

text \<open>The block that \<open>pushSingle(record, reason)\<close> appends.\<close>

definition pushSingle :: "TransactionRecord \<Rightarrow> jsstring \<Rightarrow> JourneyBlock" where
  "pushSingle record reason =
     \<lparr> id = u16 ''single-'' @ reason @ u16 ''-'' @ showInt (page record) @ u16 ''-''
              @ showInt (cont record) @ u16 ''-'' @ timestamp record,
       kind = ViajeUnico, start = record, endRecord = None, durationMinutes = None,
       records = [record] \<rparr>"

definition recargaBlock :: "TransactionRecord \<Rightarrow> JourneyBlock" where
  "recargaBlock record =
     \<lparr> id = u16 ''recarga-'' @ showInt (page record) @ u16 ''-'' @ showInt (cont record)
              @ u16 ''-'' @ timestamp record,
       kind = Recarga, start = record, endRecord = None, durationMinutes = None,
       records = [record] \<rparr>"

definition otrosBlock :: "TransactionRecord \<Rightarrow> JourneyBlock" where
  "otrosBlock record =
     \<lparr> id = u16 ''otros-'' @ showInt (page record) @ u16 ''-'' @ showInt (cont record)
              @ u16 ''-'' @ timestamp record,
       kind = Otros, start = record, endRecord = None, durationMinutes = None,
       records = [record] \<rparr>"

text \<open>
  The paired journey; \<open>diff\<close> is the exit's time minus the entry's, in milliseconds.
  For \<open>0 \<le> diff \<le> TEN_HOURS_MS\<close> the double \<open>diff / 60000\<close> rounds as the exact quotient does.
\<close>

definition viajeBlock :: "TransactionRecord \<Rightarrow> TransactionRecord \<Rightarrow> int \<Rightarrow> JourneyBlock" where
  "viajeBlock pendingEntry record diff =
     \<lparr> id = u16 ''viaje-'' @ showInt (page pendingEntry) @ u16 ''-'' @ showInt (page record)
              @ u16 ''-'' @ timestamp record,
       kind = Viaje, start = pendingEntry, endRecord = Some record,
       durationMinutes = Some (max 1 (mathRound (of_int diff / 60000))),
       records = [pendingEntry, record] \<rparr>"

text \<open>
  One turn of \<open>sorted.forEach\<close>: the state is the array \<open>journeys\<close> and the slot
  \<open>pendingEntry\<close>.
\<close>

definition journeyStep ::
  "host \<Rightarrow> JourneyBlock list \<times> TransactionRecord option \<Rightarrow> TransactionRecord
   \<Rightarrow> JourneyBlock list \<times> TransactionRecord option" where
  "journeyStep H st record =
     (let journeys = fst st; pendingEntry = snd st in
      if isRecargaTransaction H record then (journeys @ [recargaBlock record], pendingEntry)
      else if isSingleValidation H record then
        (journeys @ [pushSingle record (u16 ''unica'')], pendingEntry)
      else if isEntryValidation H record then
        (case pendingEntry of
           Some p \<Rightarrow> (journeys @ [pushSingle p (u16 ''entrada-sin-salida'')], Some record)
         | None \<Rightarrow> (journeys, Some record))
      else if isExitValidation H record then
        (case pendingEntry of
           Some p \<Rightarrow>
             (let diff = getRecordDate H record - getRecordDate H p in
              if diff < 0 then
                (journeys @ [pushSingle p (u16 ''entrada-desorden''),
                             pushSingle record (u16 ''salida-desorden'')], None)
              else if diff > TEN_HOURS_MS then
                (journeys @ [pushSingle p (u16 ''entrada-10h''),
                             pushSingle record (u16 ''salida-10h'')], None)
              else (journeys @ [viajeBlock p record diff], None))
         | None \<Rightarrow> (journeys @ [pushSingle record (u16 ''salida-suelta'')], None))
      else (journeys @ [otrosBlock record], pendingEntry))"

text \<open>
  \<open>[...records].sort(cmp)\<close> is a stable sort by ascending time; the final
  \<open>journeys.sort\<close> is a stable sort by descending start time.
\<close>

definition flushPending ::
  "JourneyBlock list \<times> TransactionRecord option \<Rightarrow> JourneyBlock list" where
  "flushPending st =
     (case snd st of
        Some p \<Rightarrow> fst st @ [pushSingle p (u16 ''entrada-final'')]
      | None \<Rightarrow> fst st)"

definition buildJourneyBlocks :: "host \<Rightarrow> TransactionRecord list \<Rightarrow> JourneyBlock list" where
  "buildJourneyBlocks H recs =
     (let sorted = sort_key (getRecordDate H) recs;
          journeys = flushPending (foldl (journeyStep H) ([], None) sorted)
      in sort_key (\<lambda>j. - getRecordDate H (start j)) journeys)"

text \<open>The records held by a journey list and by the pending slot.\<close>

definition heldRecords ::
  "JourneyBlock list \<times> TransactionRecord option \<Rightarrow> TransactionRecord multiset" where
  "heldRecords st = mset (concat (map records (fst st))) + mset (case snd st of None \<Rightarrow> [] | Some p \<Rightarrow> [p])"

section \<open>A host and records for the worked examples\<close>

text \<open>
  The examples run on ASCII text, where NFD changes nothing and the case mappings move
  only the letters A to Z and a to z, and on a host in the UTC time zone, which reads
  the timestamp \<open>YYYY-MM-DDTHH:MM:SS\<close> as that civil time.
\<close>

definition lowerUnit :: "int \<Rightarrow> int" where
  "lowerUnit c = (if 65 \<le> c \<and> c \<le> 90 then c + 32 else c)"

definition upperUnit :: "int \<Rightarrow> int" where
  "upperUnit c = (if 97 \<le> c \<and> c \<le> 122 then c - 32 else c)"

definition daysFromCivil :: "int \<Rightarrow> int \<Rightarrow> int \<Rightarrow> int" where
  "daysFromCivil y m d =
     (let y' = (if m \<le> 2 then y - 1 else y);
          era = y' div 400;
          yoe = y' - era * 400;
          doy = (153 * (if m > 2 then m - 3 else m + 9) + 2) div 5 + d - 1;
          doe = yoe * 365 + yoe div 4 - yoe div 100 + doy
      in era * 146097 + doe - 719468)"

definition isoMillis :: "jsstring \<Rightarrow> int" where
  "isoMillis s =
     (let y = digitsValue (take 4 s);
          mo = digitsValue (take 2 (drop 5 s));
          d = digitsValue (take 2 (drop 8 s));
          h = digitsValue (take 2 (drop 11 s));
          mi = digitsValue (take 2 (drop 14 s));
          sec = digitsValue (take 2 (drop 17 s))
      in (((daysFromCivil y mo d * 24 + h) * 60 + mi) * 60 + sec) * 1000)"

text \<open>
  \<open>Number.parseFloat\<close>: white space, then a sign, then \<open>Infinity\<close> or the longest
  decimal literal (digits, a point, digits, an exponent), rounded to a double; \<open>NaN\<close>
  when there is no digit.
\<close>

definition pow10 :: "int \<Rightarrow> rat" where
  "pow10 e = (if 0 \<le> e then 10 ^ nat e else 1 / 10 ^ nat (- e))"

definition exponentOf :: "jsstring \<Rightarrow> int" where
  "exponentOf r =
     (if r \<noteq> [] \<and> (hd r = 101 \<or> hd r = 69) then
        (let r1 = tl r;
             neg = (r1 \<noteq> [] \<and> hd r1 = 45);
             r2 = (if r1 \<noteq> [] \<and> (hd r1 = 45 \<or> hd r1 = 43) then tl r1 else r1);
             ds = takeWhile isDigit r2
         in if ds = [] then 0 else if neg then - digitsValue ds else digitsValue ds)
      else 0)"

definition parseFloatAscii :: "jsstring \<Rightarrow> jsnum" where
  "parseFloatAscii s =
     (let t = trimStart s;
          neg = (t \<noteq> [] \<and> hd t = 45);
          u = (if t \<noteq> [] \<and> (hd t = 45 \<or> hd t = 43) then tl t else t)
      in if take 8 u = u16 ''Infinity'' then (if neg then NegInfinity else PosInfinity)
         else (let ip = takeWhile isDigit u;
                   r1 = dropWhile isDigit u;
                   pt = (r1 \<noteq> [] \<and> hd r1 = 46);
                   fp = (if pt then takeWhile isDigit (tl r1) else []);
                   r2 = (if pt then dropWhile isDigit (tl r1) else r1)
               in if ip = [] \<and> fp = [] then NaN
                  else (let v = of_int (digitsValue (ip @ fp))
                                  * pow10 (exponentOf r2 - int (length fp));
                            d = roundDouble v
                        in if 2 ^ 1024 \<le> d then (if neg then NegInfinity else PosInfinity)
                           else Finite (if neg then - d else d))))"

definition asciiHost :: host where
  "asciiHost = \<lparr> toLowerCase = map lowerUnit, toUpperCase = map upperUnit,
                  normalizeNFD = (\<lambda>s. s), parseFloat = parseFloatAscii,
                  recordTime = (\<lambda>r. isoMillis (timestamp r)) \<rparr>"

definition exEntry :: TransactionRecord where
  "exEntry = \<lparr> cont = 2, fecha = u16 ''01/03/2024'', hora = u16 ''08:00:00'',
       timestamp = u16 ''2024-03-01T08:00:00'', transaccion = u16 ''Validacion de entrada'',
       operador = u16 ''Metro Bilbao'', equipo = u16 ''Abando'', importe = 0, saldo = 20,
       titulo = u16 ''Creditrans'', perfil = u16 ''General'', etapa = [], page = 1 \<rparr>"

definition exExit :: TransactionRecord where
  "exExit = \<lparr> cont = 3, fecha = u16 ''01/03/2024'', hora = u16 ''08:08:00'',
       timestamp = u16 ''2024-03-01T08:08:00'', transaccion = u16 ''Validacion de salida'',
       operador = u16 ''Metro Bilbao'', equipo = u16 ''Indautxu'', importe = - 155 / 100, saldo = 1845 / 100,
       titulo = u16 ''Creditrans'', perfil = u16 ''General'', etapa = [], page = 1 \<rparr>"

section \<open>Tariff catalog\<close>

datatype TariffKind = Wallet | LimitedPass | UnlimitedPass

text \<open>
  \<open>tarifas.json\<close> is not among the sources: the catalog \<open>RAW_TARIFFS\<close> is a parameter
  of everything that reads it. A \<open>limitTravel\<close> that is absent or not a finite number is
  \<open>None\<close>; trip limits are integers; a price is the number that \<open>Number(rate.price)\<close>
  reads.
\<close>

record TariffRate =
  rtype :: jsstring
  zones :: int
  price :: rat

record RawTariffDefinition =
  code :: jsstring
  name :: jsstring
  category :: jsstring
  limitTravel :: "int option"
  rates :: "TariffRate list list"

record TariffDefinition =
  code :: jsstring
  name :: jsstring
  normalizedName :: jsstring
  category :: jsstring
  limitTravel :: int
  kind :: TariffKind
  rates :: "TariffRate list"

definition FALLBACK_TARIFF_LABEL :: jsstring where
  "FALLBACK_TARIFF_LABEL = u16 ''Creditrans barik''"

definition normalizeTitleLabel :: "host \<Rightarrow> jsstring option \<Rightarrow> jsstring" where
  "normalizeTitleLabel H v =
     (let base = (case v of
                    None \<Rightarrow> FALLBACK_TARIFF_LABEL
                  | Some s \<Rightarrow> if s \<noteq> [] \<and> length (trim s) \<noteq> 0 then s
                              else FALLBACK_TARIFF_LABEL)
      in toUpperCase H
           (trim (collapseSpaces
              (filter (\<lambda>c. \<not> (768 \<le> c \<and> c \<le> 879))
                 (filter (\<lambda>c. \<not> c \<le> 31) (normalizeNFD H base))))))"

definition inferTariffKind :: "jsstring \<Rightarrow> int \<Rightarrow> TariffKind" where
  "inferTariffKind cat limit =
     (if cat = u16 ''coin_purse'' then Wallet
      else if limit > 0 then LimitedPass
      else if cat = u16 ''monthly'' \<or> cat = u16 ''youthMonthly'' then UnlimitedPass
      else if limit > 0 then LimitedPass else Wallet)"

definition flattenTariffRates :: "TariffRate list list \<Rightarrow> TariffRate list" where
  "flattenTariffRates rs =
     map (\<lambda>rate. \<lparr> rtype = rtype rate, zones = zones rate, price = price rate \<rparr>) (concat rs)"

definition TARIFFS :: "host \<Rightarrow> RawTariffDefinition list \<Rightarrow> TariffDefinition list" where
  "TARIFFS H RAW_TARIFFS =
     map (\<lambda>t. let limit = (case RawTariffDefinition.limitTravel t of Some n \<Rightarrow> n | None \<Rightarrow> 0)
              in \<lparr> code = RawTariffDefinition.code t,
                   name = RawTariffDefinition.name t,
                   normalizedName = normalizeTitleLabel H (Some (RawTariffDefinition.name t)),
                   category = RawTariffDefinition.category t,
                   limitTravel = limit,
                   kind = inferTariffKind (RawTariffDefinition.category t) limit,
                   rates = flattenTariffRates (RawTariffDefinition.rates t) \<rparr>)
       RAW_TARIFFS"

text \<open>\<open>new Map(entries)\<close>: of two entries with one key the later one stays.\<close>

definition TARIFF_BY_NAME ::
  "host \<Rightarrow> RawTariffDefinition list \<Rightarrow> jsstring \<Rightarrow> TariffDefinition option" where
  "TARIFF_BY_NAME H RAW_TARIFFS =
     map_of (rev (map (\<lambda>t. (normalizedName t, t)) (TARIFFS H RAW_TARIFFS)))"

definition DEFAULT_TARIFF_NAME :: "host \<Rightarrow> jsstring" where
  "DEFAULT_TARIFF_NAME H = normalizeTitleLabel H (Some FALLBACK_TARIFF_LABEL)"

definition FALLBACK_TARIFF :: "host \<Rightarrow> RawTariffDefinition list \<Rightarrow> TariffDefinition" where
  "FALLBACK_TARIFF H RAW_TARIFFS =
     (case TARIFFS H RAW_TARIFFS of
        t # _ \<Rightarrow> t
      | [] \<Rightarrow> \<lparr> code = u16 ''DEFAULT'', name = FALLBACK_TARIFF_LABEL,
                 normalizedName = DEFAULT_TARIFF_NAME H, category = u16 ''coin_purse'',
                 limitTravel = 0, kind = Wallet, rates = [] \<rparr>)"

definition DEFAULT_TARIFF :: "host \<Rightarrow> RawTariffDefinition list \<Rightarrow> TariffDefinition" where
  "DEFAULT_TARIFF H RAW_TARIFFS =
     (case TARIFF_BY_NAME H RAW_TARIFFS (DEFAULT_TARIFF_NAME H) of
        Some t \<Rightarrow> t
      | None \<Rightarrow> FALLBACK_TARIFF H RAW_TARIFFS)"

text \<open>The alias table; its last key is the dash U+2014.\<close>

definition TARIFF_ALIASES :: "host \<Rightarrow> (jsstring \<times> jsstring) list" where
  "TARIFF_ALIASES H =
     [(u16 ''MONEDERO CREDITRANS'', DEFAULT_TARIFF_NAME H),
      (u16 ''CREDITRANS'', DEFAULT_TARIFF_NAME H),
      (u16 ''CREDITRANS BARIK'', DEFAULT_TARIFF_NAME H),
      ([8212], DEFAULT_TARIFF_NAME H)]"

definition getTariffInfoFromTitle ::
  "host \<Rightarrow> RawTariffDefinition list \<Rightarrow> jsstring option \<Rightarrow> TariffDefinition" where
  "getTariffInfoFromTitle H RAW_TARIFFS title =
     (let normalized = normalizeTitleLabel H title;
          alias = map_of (TARIFF_ALIASES H) normalized;
          lookup = (case alias of Some a \<Rightarrow> a | None \<Rightarrow> normalized)
      in case TARIFF_BY_NAME H RAW_TARIFFS lookup of
           Some t \<Rightarrow> t
         | None \<Rightarrow> DEFAULT_TARIFF H RAW_TARIFFS)"

definition getPassValidityDays :: "TariffDefinition \<Rightarrow> int option" where
  "getPassValidityDays tariff =
     (if TariffDefinition.kind tariff = Wallet then None
      else if TariffDefinition.category tariff = u16 ''monthly''
              \<or> TariffDefinition.category tariff = u16 ''youthMonthly'' then Some 30
      else if TariffDefinition.kind tariff = LimitedPass then Some 30
      else if TariffDefinition.kind tariff = UnlimitedPass then Some 30
      else None)"
section \<open>Fare insight engine (buildFareInsights)\<close>

record PassSnapshot =
  tariff :: TariffDefinition
  kind :: TariffKind
  totalTrips :: "int option"
  remainingTrips :: "int option"
  purchaseAmount :: rat
  purchaseDate :: int
  validDays :: "int option"
  expiresAt :: "int option"
  purchaseRecordKey :: jsstring

record PassState = PassSnapshot +
  ignoreNextEntry :: bool

record LimitedContext =
  remainingTrips :: "int option"
  totalTrips :: "int option"
  pricePerTrip :: "rat option"
  savingsAmount :: "rat option"

datatype UsageKind = WalletRecharge | TitleRecharge | Ride

record FareInsight =
  usageKind :: UsageKind
  tariff :: TariffDefinition
  passContext :: "PassSnapshot option"
  savingsAmount :: "rat option"
  daysRemaining :: "int option"
  limitedContext :: "LimitedContext option"

type_synonym FareInsightsMap = "jsstring \<Rightarrow> FareInsight option"

text \<open>
  \<open>addDays\<close> moves the day of the month in local time; the model adds whole days of
  \<open>DAY_MS\<close> milliseconds, which is the same wherever no clock change falls in between.
\<close>

definition addDays :: "int \<Rightarrow> int \<Rightarrow> int" where
  "addDays date days = date + days * DAY_MS"

definition snapshotPassState :: "PassState \<Rightarrow> PassSnapshot" where
  "snapshotPassState state =
     \<lparr> PassSnapshot.tariff = PassSnapshot.tariff state,
       PassSnapshot.kind = PassSnapshot.kind state,
       PassSnapshot.totalTrips = PassSnapshot.totalTrips state,
       PassSnapshot.remainingTrips = PassSnapshot.remainingTrips state,
       purchaseAmount = purchaseAmount state,
       purchaseDate = purchaseDate state,
       validDays = validDays state,
       expiresAt = expiresAt state,
       purchaseRecordKey = purchaseRecordKey state \<rparr>"

text \<open>The pass state that a title purchase registers.\<close>

definition purchasedPass ::
  "host \<Rightarrow> TariffDefinition \<Rightarrow> TransactionRecord \<Rightarrow> PassState" where
  "purchasedPass H trf record =
     (let total =
            (if TariffDefinition.kind trf = LimitedPass
             then (if TariffDefinition.limitTravel trf = 0 then None
                   else Some (TariffDefinition.limitTravel trf))
             else None);
          vdays = getPassValidityDays trf;
          pdate = getRecordDate H record
      in \<lparr> PassSnapshot.tariff = trf,
           PassSnapshot.kind = (if TariffDefinition.kind trf = UnlimitedPass
                                then UnlimitedPass else LimitedPass),
           PassSnapshot.totalTrips = total,
           PassSnapshot.remainingTrips = total,
           purchaseAmount = importe record,
           purchaseDate = pdate,
           validDays = vdays,
           expiresAt = (case vdays of
                          None \<Rightarrow> None
                        | Some d \<Rightarrow> if d = 0 then None else Some (addDays pdate d)),
           purchaseRecordKey = getRecordKey record,
           ignoreNextEntry = (TariffDefinition.kind trf = LimitedPass) \<rparr>)"

text \<open>
  What a ride does to \<open>currentPass\<close>: on an entry or single validation under a limited
  pass with a trip count, the flag \<open>ignoreNextEntry\<close> is cleared if it is set, and
  otherwise one trip is taken, not below zero.
\<close>

definition rideUpdate :: "bool \<Rightarrow> PassState \<Rightarrow> PassState" where
  "rideUpdate isEntry currentPass =
     (if PassSnapshot.kind currentPass = LimitedPass then
        (case PassSnapshot.remainingTrips currentPass of
           Some r \<Rightarrow>
             if isEntry then
               (if ignoreNextEntry currentPass then currentPass\<lparr> ignoreNextEntry := False \<rparr>
                else currentPass\<lparr> PassSnapshot.remainingTrips := Some (max (r - 1) 0) \<rparr>)
             else currentPass
         | None \<Rightarrow> currentPass)
      else currentPass)"

text \<open>\<open>Math.ceil(a / b)\<close> for integers \<open>a\<close> and \<open>b > 0\<close>.\<close>

definition ceilDiv :: "int \<Rightarrow> int \<Rightarrow> int" where
  "ceilDiv a b = - ((- a) div b)"

definition rideInsight ::
  "host \<Rightarrow> TariffDefinition \<Rightarrow> TransactionRecord \<Rightarrow> PassState option \<Rightarrow> FareInsight" where
  "rideInsight H trf record currentPass =
     (let isEntry = isEntryValidation H record \<or> isSingleValidation H record;
          rideAmount = Some \<bar>importe record\<bar>;
          rideSavings = (if currentPass \<noteq> None \<and> isEntry then rideAmount else None);
          dleft =
            (case currentPass of
               None \<Rightarrow> None
             | Some cp \<Rightarrow>
                 (case expiresAt cp of
                    None \<Rightarrow> None
                  | Some ex \<Rightarrow> Some (max (ceilDiv (ex - getRecordDate H record) DAY_MS) 0)));
          updated = map_option (rideUpdate isEntry) currentPass;
          lctx =
            (case updated of
               None \<Rightarrow> None
             | Some cp \<Rightarrow>
                 if PassSnapshot.kind cp = LimitedPass then
                   Some \<lparr> LimitedContext.remainingTrips = PassSnapshot.remainingTrips cp,
                          LimitedContext.totalTrips = PassSnapshot.totalTrips cp,
                          LimitedContext.pricePerTrip =
                            (case PassSnapshot.totalTrips cp of
                               None \<Rightarrow> None
                             | Some t \<Rightarrow> if t \<noteq> 0 \<and> t > 0
                                         then Some (ddiv (purchaseAmount cp) (of_int t))
                                         else None),
                          LimitedContext.savingsAmount = rideSavings \<rparr>
                 else None)
      in \<lparr> usageKind = Ride, tariff = trf,
           passContext = map_option snapshotPassState updated,
           savingsAmount = rideSavings,
           daysRemaining = dleft,
           limitedContext = lctx \<rparr>)"

text \<open>
  One turn of \<open>sorted.forEach\<close>: the state is the map \<open>insights\<close> and the map
  \<open>passStates\<close>, keyed by the tariff's normalised name.
\<close>

definition fareStep ::
  "host \<Rightarrow> RawTariffDefinition list
   \<Rightarrow> FareInsightsMap \<times> (jsstring \<Rightarrow> PassState option)
   \<Rightarrow> TransactionRecord
   \<Rightarrow> FareInsightsMap \<times> (jsstring \<Rightarrow> PassState option)" where
  "fareStep H RAW_TARIFFS st record =
     (let insights = fst st; passStates = snd st;
          recordKey = getRecordKey record;
          trf = getTariffInfoFromTitle H RAW_TARIFFS (Some (titulo record))
      in if isWalletRechargeRecord H record then
           (insights(recordKey \<mapsto>
              \<lparr> usageKind = WalletRecharge, tariff = trf, passContext = None,
                savingsAmount = None, daysRemaining = None, limitedContext = None \<rparr>),
            passStates)
         else if isTitleRechargeRecord H record \<and> TariffDefinition.kind trf \<noteq> Wallet then
           (let passState = purchasedPass H trf record
            in (insights(recordKey \<mapsto>
                  \<lparr> usageKind = TitleRecharge, tariff = trf,
                    passContext = Some (snapshotPassState passState),
                    savingsAmount = None, daysRemaining = None, limitedContext = None \<rparr>),
                passStates(normalizedName trf \<mapsto> passState)))
         else
           (let currentPass = passStates (normalizedName trf);
                isEntry = isEntryValidation H record \<or> isSingleValidation H record
            in (insights(recordKey \<mapsto> rideInsight H trf record currentPass),
                (case currentPass of
                   None \<Rightarrow> passStates
                 | Some cp \<Rightarrow> passStates(normalizedName trf \<mapsto> rideUpdate isEntry cp)))))"

definition buildFareInsights ::
  "host \<Rightarrow> RawTariffDefinition list \<Rightarrow> TransactionRecord list \<Rightarrow> FareInsightsMap" where
  "buildFareInsights H RAW_TARIFFS recs =
     fst (foldl (fareStep H RAW_TARIFFS) (Map.empty, Map.empty)
            (sort_key (getRecordDate H) recs))"


text \<open>
  The tariff that the engine resolves for a record; the records that it takes as the
  purchase of a pass, and as a ride that counts against the pass registered under the
  name \<open>n\<close>.
\<close>

definition recordTariff ::
  "host \<Rightarrow> RawTariffDefinition list \<Rightarrow> TransactionRecord \<Rightarrow> TariffDefinition" where
  "recordTariff H RAW_TARIFFS record = getTariffInfoFromTitle H RAW_TARIFFS (Some (titulo record))"

definition isPassPurchase ::
  "host \<Rightarrow> RawTariffDefinition list \<Rightarrow> TransactionRecord \<Rightarrow> bool" where
  "isPassPurchase H RAW_TARIFFS record =
     (\<not> isWalletRechargeRecord H record \<and> isTitleRechargeRecord H record
      \<and> TariffDefinition.kind (recordTariff H RAW_TARIFFS record) \<noteq> Wallet)"



section \<open>Journey statistics\<close>

record JourneyStats =
  rides :: nat
  walletRecharges :: nat
  titlePurchases :: nat
  savings :: rat
  spent :: rat
  travelMinutes :: int

definition EMPTY_JOURNEY_STATS :: JourneyStats where
  "EMPTY_JOURNEY_STATS =
     \<lparr> rides = 0, walletRecharges = 0, titlePurchases = 0, savings = 0, spent = 0,
       travelMinutes = 0 \<rparr>"

definition createJourneyStats :: JourneyStats where
  "createJourneyStats = EMPTY_JOURNEY_STATS"

text \<open>One turn of \<open>journey.records.forEach\<close>.\<close>

definition statsRecordStep ::
  "FareInsightsMap \<Rightarrow> JourneyStats \<Rightarrow> TransactionRecord \<Rightarrow> JourneyStats" where
  "statsRecordStep fareInsights stats record =
     (let insight = fareInsights (getRecordKey record);
          saved = (case insight of None \<Rightarrow> None | Some i \<Rightarrow> FareInsight.savingsAmount i);
          stats1 = (case saved of
                      None \<Rightarrow> stats
                    | Some a \<Rightarrow> stats\<lparr> savings := dadd (savings stats) (max 0 a) \<rparr>);
          underPass = (case insight of None \<Rightarrow> False | Some i \<Rightarrow> passContext i \<noteq> None)
      in if \<not> underPass then stats1\<lparr> spent := dadd (spent stats1) \<bar>importe record\<bar> \<rparr>
         else stats1)"

text \<open>One turn of \<open>journeys.forEach\<close>.\<close>

definition statsStep :: "FareInsightsMap \<Rightarrow> JourneyStats \<Rightarrow> JourneyBlock \<Rightarrow> JourneyStats" where
  "statsStep fareInsights stats journey =
     (if JourneyBlock.kind journey = Recarga then
        (let fare = fareInsights (getRecordKey (start journey));
             stats1 = (if map_option usageKind fare = Some TitleRecharge
                       then stats\<lparr> titlePurchases := titlePurchases stats + 1 \<rparr>
                       else stats\<lparr> walletRecharges := walletRecharges stats + 1 \<rparr>)
         in stats1\<lparr> spent := dadd (spent stats1) \<bar>importe (start journey)\<bar> \<rparr>)
      else if JourneyBlock.kind journey = Viaje \<or> JourneyBlock.kind journey = ViajeUnico then
        (let stats1 = stats\<lparr> rides := rides stats + 1 \<rparr>;
             stats2 = (case durationMinutes journey of
                         Some d \<Rightarrow> if JourneyBlock.kind journey = Viaje
                                   then stats1\<lparr> travelMinutes := travelMinutes stats1 + d \<rparr>
                                   else stats1
                       | None \<Rightarrow> stats1)
         in foldl (statsRecordStep fareInsights) stats2 (records journey))
      else stats)"

definition computeJourneyStats :: "JourneyBlock list \<Rightarrow> FareInsightsMap \<Rightarrow> JourneyStats" where
  "computeJourneyStats journeys fareInsights =
     foldl (statsStep fareInsights) createJourneyStats journeys"

definition sumJourneyStats :: "JourneyStats list \<Rightarrow> JourneyStats" where
  "sumJourneyStats statsList =
     foldl (\<lambda>acc stats.
              \<lparr> rides = rides acc + rides stats,
                walletRecharges = walletRecharges acc + walletRecharges stats,
                titlePurchases = titlePurchases acc + titlePurchases stats,
                savings = dadd (savings acc) (savings stats),
                spent = dadd (spent acc) (spent stats),
                travelMinutes = travelMinutes acc + travelMinutes stats \<rparr>)
       createJourneyStats statsList"
section \<open>A catalog and a pass scenario for the worked examples\<close>

definition exampleTariffs :: "RawTariffDefinition list" where
  "exampleTariffs =
     [\<lparr> RawTariffDefinition.code = u16 ''CRE'',
        RawTariffDefinition.name = u16 ''Creditrans barik'',
        RawTariffDefinition.category = u16 ''coin_purse'',
        RawTariffDefinition.limitTravel = Some 0,
        RawTariffDefinition.rates = [] \<rparr>,
      \<lparr> RawTariffDefinition.code = u16 ''BB10'',
        RawTariffDefinition.name = u16 ''Bonobus10'',
        RawTariffDefinition.category = u16 ''trips'',
        RawTariffDefinition.limitTravel = Some 10,
        RawTariffDefinition.rates = [] \<rparr>]"





section \<open>What one journey adds to the counters of the statistics\<close>

definition ridesOf :: "JourneyBlock \<Rightarrow> nat" where
  "ridesOf journey =
     (if JourneyBlock.kind journey = Viaje \<or> JourneyBlock.kind journey = ViajeUnico then 1 else 0)"

definition titlePurchasesOf :: "FareInsightsMap \<Rightarrow> JourneyBlock \<Rightarrow> nat" where
  "titlePurchasesOf fareInsights journey =
     (if JourneyBlock.kind journey = Recarga
         \<and> map_option usageKind (fareInsights (getRecordKey (start journey))) = Some TitleRecharge
      then 1 else 0)"

definition walletRechargesOf :: "FareInsightsMap \<Rightarrow> JourneyBlock \<Rightarrow> nat" where
  "walletRechargesOf fareInsights journey =
     (if JourneyBlock.kind journey = Recarga
         \<and> map_option usageKind (fareInsights (getRecordKey (start journey))) \<noteq> Some TitleRecharge
      then 1 else 0)"

definition travelMinutesOf :: "JourneyBlock \<Rightarrow> int" where
  "travelMinutesOf journey =
     (if JourneyBlock.kind journey = Viaje
      then (case durationMinutes journey of Some d \<Rightarrow> d | None \<Rightarrow> 0) else 0)"

section \<open>Three rides paid from the wallet, for the worked examples\<close>

text \<open>
  Two rides of 1.55 on one day and a ride of 0.96 on the next, each amount the double
  that the decimal denotes.
\<close>

definition walletRide :: "int \<Rightarrow> jsstring \<Rightarrow> rat \<Rightarrow> TransactionRecord" where
  "walletRide c stamp amount = \<lparr> cont = c, fecha = [], hora = [],
       timestamp = stamp, transaccion = u16 ''Validacion unica'',
       operador = u16 ''Bilbobus'', equipo = u16 ''Linea 56'',
       importe = roundDouble (- amount), saldo = 0,
       titulo = u16 ''Creditrans'', perfil = u16 ''General'', etapa = [], page = 1 \<rparr>"

definition driftRecords :: "TransactionRecord list" where
  "driftRecords =
     [walletRide 1 (u16 ''2024-03-01T08:00:00'') (155 / 100),
      walletRide 2 (u16 ''2024-03-01T18:00:00'') (155 / 100),
      walletRide 3 (u16 ''2024-03-02T08:00:00'') (96 / 100)]"

definition driftJourneys :: "JourneyBlock list" where
  "driftJourneys = buildJourneyBlocks asciiHost driftRecords"

definition driftInsights :: FareInsightsMap where
  "driftInsights = buildFareInsights asciiHost exampleTariffs driftRecords"

section \<open>The key of a tariff lookup\<close>

text \<open>
  The key under which \<open>getTariffInfoFromTitle\<close> searches the catalog: the alias of the
  normalised label if it has one, the normalised label otherwise.
\<close>

definition tariffLookupKey :: "host \<Rightarrow> jsstring option \<Rightarrow> jsstring" where
  "tariffLookupKey H title =
     (case map_of (TARIFF_ALIASES H) (normalizeTitleLabel H title) of
        Some a \<Rightarrow> a
      | None \<Rightarrow> normalizeTitleLabel H title)"

text \<open>The tariff that the code writes out for an empty catalog.\<close>

definition builtinTariff :: "host \<Rightarrow> TariffDefinition" where
  "builtinTariff H =
     \<lparr> TariffDefinition.code = u16 ''DEFAULT'', TariffDefinition.name = FALLBACK_TARIFF_LABEL,
       normalizedName = DEFAULT_TARIFF_NAME H, TariffDefinition.category = u16 ''coin_purse'',
       TariffDefinition.limitTravel = 0, TariffDefinition.kind = Wallet,
       TariffDefinition.rates = [] \<rparr>"

section \<open>Table extractor (pdfParser.ts)\<close>

datatype ColumnKey =
  Cont | Fecha | Transaccion | Operador | Equipo | Importe | Saldo | Titulo | Perfil | Etapa

record ColumnBoundary =
  cbKey :: ColumnKey
  cbStart :: rat
  cbEnd :: "rat option"

text \<open>
  A positioned fragment and a line of fragments; the end of a column boundary is
  \<open>None\<close> where the code has \<open>Number.POSITIVE_INFINITY\<close>. A raw row
  (\<open>Record<ColumnKey, string>\<close>) is a function from the column keys.
\<close>

record LineSegment =
  segX :: rat
  segText :: jsstring

record Line =
  lineY :: rat
  segments :: "LineSegment list"

type_synonym RawRow = "ColumnKey \<Rightarrow> jsstring"

text \<open>
  A pattern of ASCII letters under the flag \<open>i\<close> matches a code unit exactly when the
  unit is the letter in either case.
\<close>

definition asciiUpper :: "jsstring \<Rightarrow> jsstring" where
  "asciiUpper s = map (\<lambda>c. if 97 \<le> c \<and> c \<le> 122 then c - 32 else c) s"

definition testIgnoreCase :: "jsstring \<Rightarrow> jsstring \<Rightarrow> bool" where
  "testIgnoreCase label s = includesStr (asciiUpper s) label"

definition COLUMN_DEFS :: "(ColumnKey \<times> jsstring) list" where
  "COLUMN_DEFS =
     [(Cont, u16 ''CONT''), (Fecha, u16 ''FECHA''), (Transaccion, u16 ''TRANSACC''),
      (Operador, u16 ''OPERAD''), (Equipo, u16 ''EQUIPO''), (Importe, u16 ''IMPORTE''),
      (Saldo, u16 ''SALDO''), (Titulo, u16 ''TITULO''), (Perfil, u16 ''PERFIL''),
      (Etapa, u16 ''ETAPA'')]"

definition UPPERCASE_JOIN_EXCEPTIONS :: "jsstring list" where
  "UPPERCASE_JOIN_EXCEPTIONS =
     [u16 ''DE'', u16 ''DEL'', u16 ''LA'', u16 ''LAS'', u16 ''LOS'', u16 ''LO'', u16 ''EL'',
      u16 ''DA'', u16 ''DO'', u16 ''Y'', u16 ''AL'']"

text \<open>\<open>parts.join(' ')\<close>.\<close>

fun joinSpace :: "jsstring list \<Rightarrow> jsstring" where
  "joinSpace [] = []"
| "joinSpace [s] = s"
| "joinSpace (s # t # ss) = s @ 32 # joinSpace (t # ss)"

definition lineToString :: "Line \<Rightarrow> jsstring" where
  "lineToString line = trim (joinSpace (map segText (segments line)))"

text \<open>The test of \<open>findHeaderIndex\<close> on one line, and \<open>findIndex\<close> (\<open>None\<close> for -1).\<close>

definition isHeaderLine :: "Line \<Rightarrow> bool" where
  "isHeaderLine line =
     (let text = lineToString line
      in includesStr text (u16 ''CONT'') \<and> includesStr text (u16 ''FECHA'')
         \<and> includesStr text (u16 ''IMPORTE''))"

fun findIndex :: "('a \<Rightarrow> bool) \<Rightarrow> 'a list \<Rightarrow> nat option" where
  "findIndex P [] = None"
| "findIndex P (a # as) = (if P a then Some 0 else map_option Suc (findIndex P as))"

definition findHeaderIndex :: "Line list \<Rightarrow> nat option" where
  "findHeaderIndex lines = findIndex isHeaderLine lines"

text \<open>The line after the header is skipped while it ends in TRANS and has no digit.\<close>

definition isHeaderContinuation :: "Line \<Rightarrow> bool" where
  "isHeaderContinuation line =
     (let text = lineToString line; u = asciiUpper text
      in text \<noteq> [] \<and> 5 \<le> length u \<and> drop (length u - 5) u = u16 ''TRANS''
         \<and> \<not> (\<exists>c\<in>set text. isDigit c))"

definition skipHeaderBlock :: "Line list \<Rightarrow> nat \<Rightarrow> nat" where
  "skipHeaderBlock lines headerIndex =
     headerIndex + 1 + length (takeWhile isHeaderContinuation (drop (headerIndex + 1) lines))"

text \<open>
  \<open>deriveColumnBoundaries\<close>: the starts, column by column, then the ends from the next
  start.
\<close>

definition DEFAULT_WIDTH :: rat where "DEFAULT_WIDTH = 60"
definition COLUMN_GAP :: rat where "COLUMN_GAP = 8"

fun boundaryStarts ::
  "LineSegment list \<Rightarrow> rat option \<Rightarrow> (ColumnKey \<times> jsstring) list \<Rightarrow> ColumnBoundary list" where
  "boundaryStarts segs previous [] = []"
| "boundaryStarts segs previous ((k, label) # cols) =
     (let fallbackStart = (case previous of Some p \<Rightarrow> dadd p DEFAULT_WIDTH | None \<Rightarrow> 0);
          st = (case find (\<lambda>s. testIgnoreCase label (segText s)) segs of
                  Some m \<Rightarrow> segX m
                | None \<Rightarrow> fallbackStart)
      in \<lparr> cbKey = k, cbStart = st, cbEnd = None \<rparr> # boundaryStarts segs (Some st) cols)"

fun boundaryEnds :: "ColumnBoundary list \<Rightarrow> ColumnBoundary list" where
  "boundaryEnds (current # next # bs) =
     (let tentativeEnd = dadd (cbStart next) (- COLUMN_GAP)
      in current\<lparr> cbEnd := Some (if tentativeEnd > cbStart current then tentativeEnd
                                   else dadd (cbStart current) DEFAULT_WIDTH) \<rparr>
         # boundaryEnds (next # bs))"
| "boundaryEnds [final] = [final\<lparr> cbEnd := None \<rparr>]"
| "boundaryEnds [] = []"

definition deriveColumnBoundaries :: "Line \<Rightarrow> ColumnBoundary list" where
  "deriveColumnBoundaries headerLine =
     (let orderedSegments = sort_key segX (segments headerLine)
      in boundaryEnds (boundaryStarts orderedSegments None COLUMN_DEFS))"

text \<open>
  \<open>bucketize\<close>: the first boundary that holds the fragment's \<open>x\<close> (the first boundary has
  no lower bound), or else the last boundary.
\<close>

fun findBoundary :: "rat \<Rightarrow> bool \<Rightarrow> ColumnBoundary list \<Rightarrow> ColumnBoundary option" where
  "findBoundary v isFirst [] = None"
| "findBoundary v isFirst (b # bs) =
     (if (isFirst \<or> v \<ge> cbStart b) \<and> (case cbEnd b of None \<Rightarrow> True | Some e \<Rightarrow> v < e)
      then Some b else findBoundary v False bs)"

definition bucketStep ::
  "ColumnBoundary list \<Rightarrow> (ColumnKey \<Rightarrow> jsstring option) \<Rightarrow> LineSegment
   \<Rightarrow> (ColumnKey \<Rightarrow> jsstring option)" where
  "bucketStep boundaries result segment =
     (let normalized = trim (segText segment)
      in if normalized = [] then result
         else (let column = (case findBoundary (segX segment) True boundaries of
                               Some b \<Rightarrow> b
                             | None \<Rightarrow> last boundaries);
                   k = cbKey column
               in (case result k of
                     Some old \<Rightarrow> if old \<noteq> [] then result(k \<mapsto> old @ 32 # normalized)
                                 else result(k \<mapsto> normalized)
                   | None \<Rightarrow> result(k \<mapsto> normalized))))"

definition bucketize :: "Line \<Rightarrow> ColumnBoundary list \<Rightarrow> (ColumnKey \<Rightarrow> jsstring option)" where
  "bucketize line boundaries = foldl (bucketStep boundaries) Map.empty (segments line)"

definition isLetter :: "int \<Rightarrow> bool" where
  "isLetter c =
     ((65 \<le> c \<and> c \<le> 90) \<or> (97 \<le> c \<and> c \<le> 122)
      \<or> c \<in> {193, 201, 205, 211, 218, 220, 209, 225, 233, 237, 243, 250, 252, 241})"

definition isLower :: "int \<Rightarrow> bool" where
  "isLower c = ((97 \<le> c \<and> c \<le> 122) \<or> c \<in> {225, 233, 237, 243, 250, 252, 241})"

definition isUpper :: "int \<Rightarrow> bool" where
  "isUpper c = ((65 \<le> c \<and> c \<le> 90) \<or> c \<in> {193, 201, 205, 211, 218, 220, 209})"

definition shouldSkipSpace :: "jsstring \<Rightarrow> jsstring \<Rightarrow> bool" where
  "shouldSkipSpace base addition =
     (if base = [] \<or> addition = [] then False
      else (let lastChar = last base; firstChar = hd addition
            in if isLetter lastChar \<and> firstChar = 47 then True
               else if lastChar = 47 \<and> isLetter firstChar then True
               else if isLetter lastChar \<and> firstChar = 45 then True
               else if isLetter lastChar \<and> isLower firstChar then True
               else if isLetter lastChar \<and> isUpper firstChar then
                 (let firstToken = takeWhile (\<lambda>c. \<not> isWhiteSpace c) (trimStart addition);
                      normalizedToken =
                        filter (\<lambda>c. (65 \<le> c \<and> c \<le> 90) \<or> c \<in> {193, 201, 205, 211, 218, 209})
                          firstToken
                  in normalizedToken \<noteq> [] \<and> length normalizedToken \<le> 2
                     \<and> normalizedToken \<notin> set UPPERCASE_JOIN_EXCEPTIONS)
               else False))"

definition appendSegment :: "jsstring \<Rightarrow> jsstring \<Rightarrow> jsstring" where
  "appendSegment base addition =
     (if base = [] then addition
      else if addition = [] then base
      else (let trimmedBase = trimEnd base; trimmedAddition = trimStart addition;
                glue = (if shouldSkipSpace trimmedBase trimmedAddition then [] else [32])
            in trim (collapseSpaces (trimmedBase @ glue @ trimmedAddition))))"

definition initRow :: RawRow where
  "initRow = (\<lambda>k. [])"

definition hasData :: "RawRow \<Rightarrow> bool" where
  "hasData row = (\<exists>c\<in>set COLUMN_DEFS. trim (row (fst c)) \<noteq> [])"

text \<open>
  One turn of the loop of \<open>collectRawRows\<close>: the state is the array \<open>rows\<close> and the row
  \<open>current\<close>.
\<close>

definition mergeBucket :: "(ColumnKey \<Rightarrow> jsstring option) \<Rightarrow> RawRow \<Rightarrow> RawRow" where
  "mergeBucket bucket current =
     (\<lambda>k. case bucket k of
            None \<Rightarrow> current k
          | Some addition \<Rightarrow>
              if addition = [] then current k
              else if current k \<noteq> [] then appendSegment (current k) addition
              else addition)"

definition rawRowStep ::
  "ColumnBoundary list \<Rightarrow> RawRow list \<times> RawRow option \<Rightarrow> Line \<Rightarrow> RawRow list \<times> RawRow option" where
  "rawRowStep boundaries st line =
     (let rows = fst st; current = snd st;
          bucket = bucketize line boundaries;
          contText = filter isDigit (case bucket Cont of Some t \<Rightarrow> t | None \<Rightarrow> []);
          startsNewRow = (length contText > 0 \<and> (\<forall>c\<in>set contText. isDigit c));
          rows1 = (if startsNewRow then
                     (case current of
                        Some c \<Rightarrow> if hasData c then rows @ [c] else rows
                      | None \<Rightarrow> rows)
                   else rows);
          current1 = (if startsNewRow then Some initRow else current)
      in (case current1 of
            None \<Rightarrow> (rows1, None)
          | Some c \<Rightarrow> (rows1, Some (mergeBucket bucket c))))"

definition collectRawRows :: "Line list \<Rightarrow> ColumnBoundary list \<Rightarrow> RawRow list" where
  "collectRawRows lines boundaries =
     (let st = foldl (rawRowStep boundaries) ([], None) lines
      in case snd st of
           Some c \<Rightarrow> if hasData c then fst st @ [c] else fst st
         | None \<Rightarrow> fst st)"

text \<open>The first match of \<open>/(\d{2})\/(\d{2})\/(\d{4})/\<close> and of \<open>/(\d{2}:\d{2}:\d{2})/\<close>.\<close>

definition isDateAt :: "jsstring \<Rightarrow> bool" where
  "isDateAt s =
     (10 \<le> length s \<and> isDigit (s ! 0) \<and> isDigit (s ! 1) \<and> s ! 2 = 47
      \<and> isDigit (s ! 3) \<and> isDigit (s ! 4) \<and> s ! 5 = 47
      \<and> isDigit (s ! 6) \<and> isDigit (s ! 7) \<and> isDigit (s ! 8) \<and> isDigit (s ! 9))"

fun matchDate :: "jsstring \<Rightarrow> jsstring option" where
  "matchDate [] = None"
| "matchDate (c # cs) = (if isDateAt (c # cs) then Some (take 10 (c # cs)) else matchDate cs)"

definition isTimeAt :: "jsstring \<Rightarrow> bool" where
  "isTimeAt s =
     (8 \<le> length s \<and> isDigit (s ! 0) \<and> isDigit (s ! 1) \<and> s ! 2 = 58
      \<and> isDigit (s ! 3) \<and> isDigit (s ! 4) \<and> s ! 5 = 58
      \<and> isDigit (s ! 6) \<and> isDigit (s ! 7))"

fun matchTime :: "jsstring \<Rightarrow> jsstring option" where
  "matchTime [] = None"
| "matchTime (c # cs) = (if isTimeAt (c # cs) then Some (take 8 (c # cs)) else matchTime cs)"

text \<open>\<open>s.split(d)\<close> for a one-character separator; a part that is missing is empty.\<close>

fun splitOn :: "int \<Rightarrow> jsstring \<Rightarrow> jsstring list" where
  "splitOn d [] = [[]]"
| "splitOn d (c # cs) =
     (if c = d then [] # splitOn d cs
      else (case splitOn d cs of p # ps \<Rightarrow> (c # p) # ps | [] \<Rightarrow> [[c]]))"

definition partAt :: "jsstring list \<Rightarrow> nat \<Rightarrow> jsstring" where
  "partAt ps i = (if i < length ps then ps ! i else [])"

definition toIso :: "jsstring \<Rightarrow> jsstring \<Rightarrow> jsstring" where
  "toIso date time =
     (let ps = splitOn 47 date; day = partAt ps 0; month = partAt ps 1; year = partAt ps 2
      in if day = [] \<or> month = [] \<or> year = [] then []
         else year @ u16 ''-'' @ month @ u16 ''-'' @ day @ u16 ''T'' @ time)"

definition clean :: "jsstring \<Rightarrow> jsstring" where
  "clean v = trim (collapseSpaces v)"

text \<open>\<open>value.replace(',', '.')\<close> replaces the first comma only.\<close>

fun replaceFirst :: "int \<Rightarrow> int \<Rightarrow> jsstring \<Rightarrow> jsstring" where
  "replaceFirst a b [] = []"
| "replaceFirst a b (c # cs) = (if c = a then b # cs else c # replaceFirst a b cs)"

text \<open>
  \<open>parseAmount\<close>; an absent value is \<open>None\<close>. The text that it hands to
  \<open>parseFloat\<close> has no white space and no point, and its first comma is a point.
\<close>

definition amountText :: "jsstring \<Rightarrow> jsstring" where
  "amountText s =
     replaceFirst 44 46 (filter (\<lambda>c. c \<noteq> 46) (filter (\<lambda>c. \<not> isWhiteSpace c) s))"

definition parseAmount :: "host \<Rightarrow> jsstring option \<Rightarrow> jsnum" where
  "parseAmount H v =
     (case v of
        None \<Rightarrow> Finite 0
      | Some s \<Rightarrow>
          if s = [] then Finite 0
          else (let normalized = amountText s;
                    numeric = parseFloat H normalized
                in if isFiniteNumber numeric then numeric else Finite 0))"

text \<open>
  A field of a record holds the value of a finite double; \<open>parseAmount\<close> yields no
  other number (see the properties).
\<close>

definition numberValue :: "jsnum \<Rightarrow> rat" where
  "numberValue n = (case n of Finite q \<Rightarrow> q | _ \<Rightarrow> 0)"

text \<open>
  \<open>normalizeRow\<close>; \<open>None\<close> is \<open>null\<close>. After \<open>replace(/\D/g, '')\<close> the text of
  \<open>cont\<close> holds digits only, and \<open>parseInt\<close> gives \<open>NaN\<close> exactly when it is empty.
\<close>

definition normalizeRow :: "host \<Rightarrow> RawRow \<Rightarrow> int \<Rightarrow> TransactionRecord option" where
  "normalizeRow H row pg =
     (let digits = filter isDigit (row Cont)
      in if digits = [] then None
         else (let fechaRaw = trim (collapseSpaces (row Fecha));
                   fe = (case matchDate fechaRaw of Some m \<Rightarrow> m | None \<Rightarrow> []);
                   ho = (case matchTime fechaRaw of Some m \<Rightarrow> m | None \<Rightarrow> []);
                   ts = (if fe \<noteq> [] \<and> ho \<noteq> [] then toIso fe ho else [])
               in Some \<lparr> cont = digitsValue digits, fecha = fe, hora = ho, timestamp = ts,
                         transaccion = clean (row Transaccion),
                         operador = clean (row Operador),
                         equipo = clean (row Equipo),
                         importe = numberValue (parseAmount H (Some (row Importe))),
                         saldo = numberValue (parseAmount H (Some (row Saldo))),
                         titulo = clean (row Titulo),
                         perfil = clean (row Perfil),
                         etapa = clean (row Etapa),
                         page = pg \<rparr>))"

text \<open>
  The body of the page loop of \<open>extractTransactionsFromData\<close>, on the lines that
  \<open>groupLines\<close> gives for the page: a page with no header is skipped.
\<close>

definition extractPage :: "host \<Rightarrow> Line list \<Rightarrow> int \<Rightarrow> TransactionRecord list" where
  "extractPage H lines pageNumber =
     (case findHeaderIndex lines of
        None \<Rightarrow> []
      | Some headerIndex \<Rightarrow>
          (let columnBoundaries = deriveColumnBoundaries (lines ! headerIndex);
               bodyLines = drop (skipHeaderBlock lines headerIndex) lines;
               rawRows = collectRawRows bodyLines columnBoundaries
           in concat (map (\<lambda>row. case normalizeRow H row pageNumber of
                                     Some parsed \<Rightarrow> [parsed]
                                   | None \<Rightarrow> [])
                        rawRows)))"

record ExtractionResult =
  pages :: nat
  records :: "TransactionRecord list"

definition extractTransactionsFromData :: "host \<Rightarrow> Line list list \<Rightarrow> ExtractionResult" where
  "extractTransactionsFromData H pageLines =
     \<lparr> pages = length pageLines,
       records = concat (map (\<lambda>(i, lines). extractPage H lines (int i + 1))
                           (enumerate 0 pageLines)) \<rparr>"

section \<open>Pages for the worked examples\<close>

text \<open>
  A page whose header is in upper case, with one row below it, and the same page with
  the header in lower case.
\<close>

definition seg :: "rat \<Rightarrow> string \<Rightarrow> LineSegment" where
  "seg v s = \<lparr> segX = v, segText = u16 s \<rparr>"

definition upperHeader :: Line where
  "upperHeader = \<lparr> lineY = 700, segments =
     [seg 20 ''CONT'', seg 60 ''FECHA'', seg 150 ''TRANSACCION'', seg 250 ''OPERADOR'',
      seg 330 ''EQUIPO'', seg 420 ''IMPORTE'', seg 480 ''SALDO'', seg 540 ''TITULO'',
      seg 620 ''PERFIL'', seg 700 ''ETAPA''] \<rparr>"

definition lowerHeader :: Line where
  "lowerHeader = \<lparr> lineY = 700, segments =
     [seg 20 ''Cont'', seg 60 ''Fecha'', seg 150 ''Transaccion'', seg 250 ''Operador'',
      seg 330 ''Equipo'', seg 420 ''Importe'', seg 480 ''Saldo'', seg 540 ''Titulo'',
      seg 620 ''Perfil'', seg 700 ''Etapa''] \<rparr>"

definition dataLine :: Line where
  "dataLine = \<lparr> lineY = 680, segments =
     [seg 20 ''12'', seg 60 ''01/03/2024 08:08:00'', seg 150 ''Validacion de salida'',
      seg 250 ''Metro Bilbao'', seg 330 ''Indautxu'', seg 420 ''-1,55'', seg 480 ''18,45'',
      seg 540 ''Creditrans'', seg 620 ''General''] \<rparr>"

definition exampleRow :: RawRow where
  "exampleRow =
     (\<lambda>k. case k of
            Cont \<Rightarrow> u16 ''12''
          | Fecha \<Rightarrow> u16 ''01/03/2024 08:08:00''
          | Importe \<Rightarrow> u16 ''-1,55''
          | Saldo \<Rightarrow> u16 ''1.018,45''
          | _ \<Rightarrow> [])"

text \<open>The record of that row: 1.55 taken, 1018.45 left.\<close>

definition exampleParsed :: TransactionRecord where
  "exampleParsed = \<lparr> cont = 12, fecha = u16 ''01/03/2024'', hora = u16 ''08:08:00'',
       timestamp = u16 ''2024-03-01T08:08:00'', transaccion = [], operador = [], equipo = [],
       importe = - (6980579422424269 / 4503599627370496),
       saldo = 4479190469233869 / 4398046511104,
       titulo = [], perfil = [], etapa = [], page = 1 \<rparr>"

section \<open>Frame of the two builders: the caller's array\<close>

text \<open>
  Arrays of records live in a store: an address holds the contents of an array, and
  \<open>nextAddr\<close> is the first address never used. \<open>[...records]\<close> allocates a new array
  with the same contents; \<open>array.sort(cmp)\<close> sorts the array at its address in place.
\<close>

record heap =
  cells :: "nat \<Rightarrow> TransactionRecord list option"
  nextAddr :: nat

definition readArray :: "heap \<Rightarrow> nat \<Rightarrow> TransactionRecord list" where
  "readArray h a = (case cells h a of Some xs \<Rightarrow> xs | None \<Rightarrow> [])"

definition spreadCopy :: "heap \<Rightarrow> nat \<Rightarrow> nat \<times> heap" where
  "spreadCopy h a =
     (nextAddr h, h\<lparr> cells := (cells h)(nextAddr h \<mapsto> readArray h a),
                       nextAddr := Suc (nextAddr h) \<rparr>)"

definition sortInPlace :: "(TransactionRecord \<Rightarrow> int) \<Rightarrow> heap \<Rightarrow> nat \<Rightarrow> heap" where
  "sortInPlace f h a = h\<lparr> cells := (cells h)(a \<mapsto> sort_key f (readArray h a)) \<rparr>"

text \<open>
  The two builders on the store: each is handed the address of the caller's array and
  returns its result with the store it leaves.
\<close>

definition buildJourneyBlocksOn :: "host \<Rightarrow> heap \<Rightarrow> nat \<Rightarrow> JourneyBlock list \<times> heap" where
  "buildJourneyBlocksOn H h recordsAddr =
     (let (sorted, h1) = spreadCopy h recordsAddr;
          h2 = sortInPlace (getRecordDate H) h1 sorted;
          journeys = flushPending (foldl (journeyStep H) ([], None) (readArray h2 sorted))
      in (sort_key (\<lambda>j. - getRecordDate H (start j)) journeys, h2))"

definition buildFareInsightsOn ::
  "host \<Rightarrow> RawTariffDefinition list \<Rightarrow> heap \<Rightarrow> nat \<Rightarrow> FareInsightsMap \<times> heap" where
  "buildFareInsightsOn H RAW_TARIFFS h recordsAddr =
     (let (sorted, h1) = spreadCopy h recordsAddr;
          h2 = sortInPlace (getRecordDate H) h1 sorted
      in (fst (foldl (fareStep H RAW_TARIFFS) (Map.empty, Map.empty) (readArray h2 sorted)),
          h2))"

text \<open>A store with the exit before the entry in the caller's array, at address 0.\<close>

definition exampleHeap :: heap where
  "exampleHeap = \<lparr> cells = [0 \<mapsto> [exExit, exEntry]], nextAddr = 1 \<rparr>"

chapter \<open>Properties\<close>

section \<open>Journey exhaustiveness\<close>

lemma records_pushSingle: "JourneyBlock.records (pushSingle r reason) = [r]"
  by (simp add: pushSingle_def)

lemma records_recargaBlock: "JourneyBlock.records (recargaBlock r) = [r]"
  by (simp add: recargaBlock_def)

lemma records_otrosBlock: "JourneyBlock.records (otrosBlock r) = [r]"
  by (simp add: otrosBlock_def)

lemma records_viajeBlock: "JourneyBlock.records (viajeBlock p r d) = [p, r]"
  by (simp add: viajeBlock_def)

lemma heldRecords_step: "heldRecords (journeyStep H st r) = heldRecords st + {#r#}"
  by (cases st; cases "snd st")
     (auto simp: heldRecords_def journeyStep_def Let_def records_pushSingle
        records_recargaBlock records_otrosBlock records_viajeBlock)

lemma heldRecords_foldl:
  "heldRecords (foldl (journeyStep H) st rs) = heldRecords st + mset rs"
  by (induction rs arbitrary: st) (simp_all add: heldRecords_step)

lemma mset_flushPending:
  "mset (concat (map JourneyBlock.records (flushPending st))) = heldRecords st"
  by (cases "snd st") (simp_all add: flushPending_def heldRecords_def records_pushSingle)

lemma mset_concat_map_cong:
  assumes "mset xs = mset ys"
  shows "mset (concat (map f xs)) = mset (concat (map f ys))"
proof -
  have "mset (concat (map f zs)) = (\<Sum>x\<in>#mset zs. mset (f x))" for zs :: "'a list"
    by (induction zs) simp_all
  with assms show ?thesis by simp
qed

text \<open>
  C4. Every input record appears in the \<open>records\<close> of exactly one journey of the output:
  the records of all journeys, taken together, are the input records, each as often as
  the input holds it; none is dropped, none is duplicated, and a pending entry left at
  the end is flushed.
\<close>

theorem journey_exhaustiveness:
  "mset (concat (map JourneyBlock.records (buildJourneyBlocks H recs))) = mset recs"
proof -
  let ?js = "flushPending (foldl (journeyStep H) ([], None) (sort_key (getRecordDate H) recs))"
  have "mset (concat (map JourneyBlock.records (buildJourneyBlocks H recs)))
      = mset (concat (map JourneyBlock.records ?js))"
    unfolding buildJourneyBlocks_def Let_def
    by (rule mset_concat_map_cong) simp
  also have "\<dots> = heldRecords ([], None) + mset (sort_key (getRecordDate H) recs)"
    by (simp only: mset_flushPending heldRecords_foldl)
  also have "\<dots> = mset recs"
    by (simp add: heldRecords_def)
  finally show ?thesis .
qed

section \<open>Pairing of entry and exit\<close>







section \<open>Pass decrement\<close>






















section \<open>Statistics over a partition\<close>

lemma statsRecordStep_counters:
  "rides (statsRecordStep fi s r) = rides s"
  "walletRecharges (statsRecordStep fi s r) = walletRecharges s"
  "titlePurchases (statsRecordStep fi s r) = titlePurchases s"
  "travelMinutes (statsRecordStep fi s r) = travelMinutes s"
  by (simp_all add: statsRecordStep_def Let_def split: option.splits)

lemma statsRecordFold_counters:
  "rides (foldl (statsRecordStep fi) s rs) = rides s"
  "walletRecharges (foldl (statsRecordStep fi) s rs) = walletRecharges s"
  "titlePurchases (foldl (statsRecordStep fi) s rs) = titlePurchases s"
  "travelMinutes (foldl (statsRecordStep fi) s rs) = travelMinutes s"
  by (induction rs arbitrary: s) (simp_all add: statsRecordStep_counters)

lemma statsStep_counters:
  "rides (statsStep fi s j) = rides s + ridesOf j"
  "walletRecharges (statsStep fi s j) = walletRecharges s + walletRechargesOf fi j"
  "titlePurchases (statsStep fi s j) = titlePurchases s + titlePurchasesOf fi j"
  "travelMinutes (statsStep fi s j) = travelMinutes s + travelMinutesOf j"
  by (auto simp: statsStep_def Let_def statsRecordFold_counters ridesOf_def
      walletRechargesOf_def titlePurchasesOf_def travelMinutesOf_def split: option.splits)

lemma statsFold_counters:
  "rides (foldl (statsStep fi) s js) = rides s + sum_list (map ridesOf js)"
  "walletRecharges (foldl (statsStep fi) s js)
     = walletRecharges s + sum_list (map (walletRechargesOf fi) js)"
  "titlePurchases (foldl (statsStep fi) s js)
     = titlePurchases s + sum_list (map (titlePurchasesOf fi) js)"
  "travelMinutes (foldl (statsStep fi) s js) = travelMinutes s + sum_list (map travelMinutesOf js)"
  by (induction js arbitrary: s) (simp_all add: statsStep_counters)

lemma computeJourneyStats_counters:
  "rides (computeJourneyStats js fi) = sum_list (map ridesOf js)"
  "walletRecharges (computeJourneyStats js fi) = sum_list (map (walletRechargesOf fi) js)"
  "titlePurchases (computeJourneyStats js fi) = sum_list (map (titlePurchasesOf fi) js)"
  "travelMinutes (computeJourneyStats js fi) = sum_list (map travelMinutesOf js)"
  by (simp_all add: computeJourneyStats_def statsFold_counters createJourneyStats_def
      EMPTY_JOURNEY_STATS_def)

lemma sumJourneyStats_pair_counters:
  "rides (sumJourneyStats [a, b]) = rides a + rides b"
  "walletRecharges (sumJourneyStats [a, b]) = walletRecharges a + walletRecharges b"
  "titlePurchases (sumJourneyStats [a, b]) = titlePurchases a + titlePurchases b"
  "travelMinutes (sumJourneyStats [a, b]) = travelMinutes a + travelMinutes b"
  by (simp_all add: sumJourneyStats_def createJourneyStats_def EMPTY_JOURNEY_STATS_def)

lemma sum_list_map_partition:
  fixes f :: "'a \<Rightarrow> 'b::comm_monoid_add"
  assumes "mset xs = mset ys + mset zs"
  shows "sum_list (map f xs) = sum_list (map f ys) + sum_list (map f zs)"
proof -
  have "sum_list (map f xs) = sum_mset (image_mset f (mset xs))"
    by (metis mset_map sum_mset_sum_list)
  also have "\<dots> = sum_mset (image_mset f (mset ys)) + sum_mset (image_mset f (mset zs))"
    by (simp add: assms)
  also have "\<dots> = sum_list (map f ys) + sum_list (map f zs)"
    by (metis mset_map sum_mset_sum_list)
  finally show ?thesis .
qed

text \<open>
  C3, as the code has it. Over any split of the journeys into two parts, the four
  counters of the statistics (rides, wallet recharges, title purchases, travel minutes)
  of the whole are exactly the field-wise sums of the parts. The two amounts, savings
  and spent, are sums of doubles and are left out: see the counterexample.
\<close>

theorem stats_additivity:
  assumes "mset journeys = mset partA + mset partB"
  shows "rides (sumJourneyStats [computeJourneyStats partA fi, computeJourneyStats partB fi])
           = rides (computeJourneyStats journeys fi)
       \<and> walletRecharges (sumJourneyStats [computeJourneyStats partA fi, computeJourneyStats partB fi])
           = walletRecharges (computeJourneyStats journeys fi)
       \<and> titlePurchases (sumJourneyStats [computeJourneyStats partA fi, computeJourneyStats partB fi])
           = titlePurchases (computeJourneyStats journeys fi)
       \<and> travelMinutes (sumJourneyStats [computeJourneyStats partA fi, computeJourneyStats partB fi])
           = travelMinutes (computeJourneyStats journeys fi)"
  by (simp add: sumJourneyStats_pair_counters computeJourneyStats_counters
      sum_list_map_partition [OF assms])

lemma driftJourneys_eq:
  "driftJourneys = map (\<lambda>r. pushSingle r (u16 ''unica'')) (rev driftRecords)"
  by code_simp

theorem stats_additivity_witness:
  "rides (sumJourneyStats [computeJourneyStats (take 1 driftJourneys) driftInsights,
                          computeJourneyStats (drop 1 driftJourneys) driftInsights])
     = rides (computeJourneyStats driftJourneys driftInsights)
   \<and> rides (computeJourneyStats driftJourneys driftInsights) = 3
   \<and> walletRecharges (sumJourneyStats [computeJourneyStats (take 1 driftJourneys) driftInsights,
                          computeJourneyStats (drop 1 driftJourneys) driftInsights])
     = walletRecharges (computeJourneyStats driftJourneys driftInsights)
   \<and> titlePurchases (sumJourneyStats [computeJourneyStats (take 1 driftJourneys) driftInsights,
                          computeJourneyStats (drop 1 driftJourneys) driftInsights])
     = titlePurchases (computeJourneyStats driftJourneys driftInsights)
   \<and> travelMinutes (sumJourneyStats [computeJourneyStats (take 1 driftJourneys) driftInsights,
                          computeJourneyStats (drop 1 driftJourneys) driftInsights])
     = travelMinutes (computeJourneyStats driftJourneys driftInsights)"
proof -
  have split: "mset driftJourneys = mset (take 1 driftJourneys) + mset (drop 1 driftJourneys)"
    by (metis append_take_drop_id mset_append)
  have three: "rides (computeJourneyStats driftJourneys driftInsights) = 3"
    by (simp add: computeJourneyStats_counters driftJourneys_eq driftRecords_def ridesOf_def
        pushSingle_def)
  from stats_additivity [OF split, of driftInsights] three show ?thesis
    by simp
qed

section \<open>The amounts of the statistics drift\<close>

lemma fareStep_no_pass:
  assumes "\<not> isPassPurchase H RAW r" and "snd st = Map.empty"
      and "\<forall>k i. fst st k = Some i \<longrightarrow> passContext i = None \<and> FareInsight.savingsAmount i = None"
  shows "snd (fareStep H RAW st r) = Map.empty"
    and "\<forall>k i. fst (fareStep H RAW st r) k = Some i
           \<longrightarrow> passContext i = None \<and> FareInsight.savingsAmount i = None"
  using assms
  by (auto simp: fareStep_def isPassPurchase_def recordTariff_def Let_def rideInsight_def)

lemma fareFold_no_pass:
  assumes "\<forall>r\<in>set rs. \<not> isPassPurchase H RAW r" and "snd st = Map.empty"
      and "\<forall>k i. fst st k = Some i \<longrightarrow> passContext i = None \<and> FareInsight.savingsAmount i = None"
  shows "\<forall>k i. fst (foldl (fareStep H RAW) st rs) k = Some i
           \<longrightarrow> passContext i = None \<and> FareInsight.savingsAmount i = None"
  using assms
proof (induction rs arbitrary: st)
  case Nil
  then show ?case by simp
next
  case (Cons r rs)
  have r: "\<not> isPassPurchase H RAW r" using Cons.prems(1) by simp
  from Cons.IH [OF _ fareStep_no_pass [OF r Cons.prems(2,3)]] Cons.prems(1)
  show ?case by simp
qed

lemma buildFareInsights_no_pass:
  assumes "\<forall>r\<in>set recs. \<not> isPassPurchase H RAW r"
      and "buildFareInsights H RAW recs k = Some i"
  shows "passContext i = None \<and> FareInsight.savingsAmount i = None"
proof -
  have "\<forall>r\<in>set (sort_key (getRecordDate H) recs). \<not> isPassPurchase H RAW r"
    using assms(1) by simp
  from fareFold_no_pass [OF this, of "(Map.empty, Map.empty)"] assms(2)
  show ?thesis by (simp add: buildFareInsights_def)
qed

lemma statsStep_single_no_pass:
  assumes "\<forall>k i. fi k = Some i \<longrightarrow> passContext i = None \<and> FareInsight.savingsAmount i = None"
  shows "spent (statsStep fi s (pushSingle r reason)) = dadd (spent s) \<bar>importe r\<bar>"
proof -
  have "statsRecordStep fi s' r = s'\<lparr> spent := dadd (spent s') \<bar>importe r\<bar> \<rparr>" for s'
    using assms by (cases "fi (getRecordKey r)") (auto simp: statsRecordStep_def Let_def)
  then show ?thesis
    by (simp add: statsStep_def pushSingle_def Let_def)
qed

lemma drift_no_pass: "\<forall>r\<in>set driftRecords. \<not> isPassPurchase asciiHost exampleTariffs r"
  by code_simp

lemma drift_amounts:
  "map (\<lambda>r. \<bar>importe r\<bar>) (rev driftRecords)
     = [1080863910568919 / 1125899906842624, 6980579422424269 / 4503599627370496,
        6980579422424269 / 4503599627370496]"
  by code_simp

lemma drift_whole:
  "dadd (dadd (dadd 0 (1080863910568919 / 1125899906842624))
           (6980579422424269 / 4503599627370496)) (6980579422424269 / 4503599627370496)
     = 4571153621781053 / 1125899906842624"
  by code_simp

lemma drift_parts:
  "dadd (dadd 0 (dadd 0 (1080863910568919 / 1125899906842624)))
        (dadd (dadd 0 (6980579422424269 / 4503599627370496))
              (6980579422424269 / 4503599627370496))
     = 4571153621781054 / 1125899906842624"
  by code_simp

text \<open>
  C3 as the specification states it fails for the amounts. A ride of 0.96 on one day and
  two rides of 1.55 on the day before, none under a pass: the whole has
  \<open>spent = (0.96 + 1.55) + 1.55 = 4.06\<close>, the two days summed have
  \<open>spent = 0.96 + (1.55 + 1.55) = 4.0600000000000005\<close>, one unit in the last place more.
\<close>

theorem stats_additivity_counterexample:
  "spent (computeJourneyStats driftJourneys driftInsights)
     = 4571153621781053 / 1125899906842624
   \<and> spent (sumJourneyStats [computeJourneyStats (take 1 driftJourneys) driftInsights,
                             computeJourneyStats (drop 1 driftJourneys) driftInsights])
     = 4571153621781054 / 1125899906842624
   \<and> spent (sumJourneyStats [computeJourneyStats (take 1 driftJourneys) driftInsights,
                             computeJourneyStats (drop 1 driftJourneys) driftInsights])
     \<noteq> spent (computeJourneyStats driftJourneys driftInsights)"
proof -
  have fi: "\<forall>k i. driftInsights k = Some i
      \<longrightarrow> passContext i = None \<and> FareInsight.savingsAmount i = None"
    using buildFareInsights_no_pass [OF drift_no_pass] by (simp add: driftInsights_def)
  note step = statsStep_single_no_pass [OF fi]
  obtain r3 r2 r1 where rs: "rev driftRecords = [r3, r2, r1]"
    by (simp add: driftRecords_def)
  have js: "driftJourneys = [pushSingle r3 (u16 ''unica''), pushSingle r2 (u16 ''unica''),
      pushSingle r1 (u16 ''unica'')]"
    by (simp add: driftJourneys_eq rs)
  have am: "\<bar>importe r3\<bar> = 1080863910568919 / 1125899906842624"
      "\<bar>importe r2\<bar> = 6980579422424269 / 4503599627370496"
      "\<bar>importe r1\<bar> = 6980579422424269 / 4503599627370496"
    using drift_amounts by (simp_all add: rs)
  have zero: "spent createJourneyStats = 0"
    by (simp add: createJourneyStats_def EMPTY_JOURNEY_STATS_def)
  have whole: "spent (computeJourneyStats driftJourneys driftInsights)
      = 4571153621781053 / 1125899906842624"
    by (simp only: js computeJourneyStats_def foldl.simps step am zero drift_whole)
  have partA: "spent (computeJourneyStats (take 1 driftJourneys) driftInsights)
      = dadd 0 (1080863910568919 / 1125899906842624)"
    by (simp add: js computeJourneyStats_def step am zero)
  have partB: "spent (computeJourneyStats (drop 1 driftJourneys) driftInsights)
      = dadd (dadd 0 (6980579422424269 / 4503599627370496)) (6980579422424269 / 4503599627370496)"
    by (simp add: js computeJourneyStats_def step am zero)
  have "spent (sumJourneyStats [a, b]) = dadd (dadd 0 (spent a)) (spent b)" for a b
    by (simp add: sumJourneyStats_def zero createJourneyStats_def EMPTY_JOURNEY_STATS_def)
  then have parts: "spent (sumJourneyStats [computeJourneyStats (take 1 driftJourneys) driftInsights,
      computeJourneyStats (drop 1 driftJourneys) driftInsights])
      = 4571153621781054 / 1125899906842624"
    by (simp only: partA partB drift_parts)
  show ?thesis
    by (simp only: whole parts) simp
qed

section \<open>Tariff lookup\<close>

lemma getTariffInfoFromTitle_key:
  "getTariffInfoFromTitle H RAW title =
     (case TARIFF_BY_NAME H RAW (tariffLookupKey H title) of
        Some t \<Rightarrow> t
      | None \<Rightarrow> DEFAULT_TARIFF H RAW)"
  by (simp add: getTariffInfoFromTitle_def tariffLookupKey_def Let_def)

lemma lookup_default_name:
  "(case TARIFF_BY_NAME H RAW (DEFAULT_TARIFF_NAME H) of
      Some t \<Rightarrow> t
    | None \<Rightarrow> DEFAULT_TARIFF H RAW) = DEFAULT_TARIFF H RAW"
  by (simp add: DEFAULT_TARIFF_def split: option.splits)

lemma alias_values:
  "map_of (TARIFF_ALIASES H) k = Some a \<Longrightarrow> a = DEFAULT_TARIFF_NAME H"
  by (auto simp: TARIFF_ALIASES_def split: if_splits)

lemma alias_keys:
  "k \<in> fst ` set (TARIFF_ALIASES H) \<Longrightarrow> map_of (TARIFF_ALIASES H) k = Some (DEFAULT_TARIFF_NAME H)"
  by (auto simp: TARIFF_ALIASES_def)

lemma key_of_default_name:
  assumes "normalizeTitleLabel H title = DEFAULT_TARIFF_NAME H"
  shows "tariffLookupKey H title = DEFAULT_TARIFF_NAME H"
  using assms alias_values [of H "DEFAULT_TARIFF_NAME H"]
  by (auto simp: tariffLookupKey_def split: option.splits)

lemma normalize_blank:
  assumes "title = None \<or> (\<exists>s. title = Some s \<and> trim s = [])"
  shows "normalizeTitleLabel H title = DEFAULT_TARIFF_NAME H"
  using assms
  by (auto simp: normalizeTitleLabel_def DEFAULT_TARIFF_NAME_def FALLBACK_TARIFF_LABEL_def
      u16_def trim_def isWhiteSpace_def)

lemma TARIFF_BY_NAME_member:
  "TARIFF_BY_NAME H RAW k = Some t \<Longrightarrow> t \<in> set (TARIFFS H RAW)"
  by (auto simp: TARIFF_BY_NAME_def dest!: map_of_SomeD)

lemma DEFAULT_TARIFF_member:
  "DEFAULT_TARIFF H RAW \<in> set (TARIFFS H RAW)
   \<or> (RAW = [] \<and> DEFAULT_TARIFF H RAW = builtinTariff H)"
proof (cases "TARIFF_BY_NAME H RAW (DEFAULT_TARIFF_NAME H)")
  case (Some t)
  then show ?thesis
    using TARIFF_BY_NAME_member [OF Some] by (simp add: DEFAULT_TARIFF_def)
next
  case None
  then show ?thesis
    by (cases RAW) (simp_all add: DEFAULT_TARIFF_def FALLBACK_TARIFF_def TARIFFS_def
        builtinTariff_def Let_def)
qed

text \<open>
  C8. The lookup returns a tariff for every title, absent (\<open>None\<close>), empty, blank, alias
  or unknown: an entry of the catalog, or the tariff written out in the code when the
  catalog is empty. It is the default tariff whenever the key (the normalised label
  after alias resolution) matches no catalog entry; so it is for an absent or blank
  title and for every alias. The default tariff of an empty catalog is a wallet.
\<close>

theorem tariff_lookup_total:
  "(getTariffInfoFromTitle H RAW title \<in> set (TARIFFS H RAW)
      \<or> (RAW = [] \<and> getTariffInfoFromTitle H RAW title = builtinTariff H))
   \<and> (TARIFF_BY_NAME H RAW (tariffLookupKey H title) = None
        \<longrightarrow> getTariffInfoFromTitle H RAW title = DEFAULT_TARIFF H RAW)
   \<and> (title = None \<or> (\<exists>s. title = Some s \<and> trim s = [])
        \<longrightarrow> getTariffInfoFromTitle H RAW title = DEFAULT_TARIFF H RAW)
   \<and> (normalizeTitleLabel H title \<in> fst ` set (TARIFF_ALIASES H)
        \<longrightarrow> getTariffInfoFromTitle H RAW title = DEFAULT_TARIFF H RAW)
   \<and> (RAW = [] \<longrightarrow> TariffDefinition.kind (getTariffInfoFromTitle H RAW title) = Wallet)"
proof -
  have member: "getTariffInfoFromTitle H RAW title \<in> set (TARIFFS H RAW)
      \<or> (RAW = [] \<and> getTariffInfoFromTitle H RAW title = builtinTariff H)"
  proof (cases "TARIFF_BY_NAME H RAW (tariffLookupKey H title)")
    case None
    then show ?thesis
      using DEFAULT_TARIFF_member [of H RAW] by (simp add: getTariffInfoFromTitle_key)
  next
    case (Some t)
    then show ?thesis
      using TARIFF_BY_NAME_member [OF Some] by (simp add: getTariffInfoFromTitle_key)
  qed
  have unmatched: "getTariffInfoFromTitle H RAW title = DEFAULT_TARIFF H RAW"
    if "TARIFF_BY_NAME H RAW (tariffLookupKey H title) = None"
    using that by (simp add: getTariffInfoFromTitle_key)
  have blank: "getTariffInfoFromTitle H RAW title = DEFAULT_TARIFF H RAW"
    if "title = None \<or> (\<exists>s. title = Some s \<and> trim s = [])"
    using key_of_default_name [OF normalize_blank [OF that]]
    by (simp add: getTariffInfoFromTitle_key lookup_default_name)
  have aliased: "getTariffInfoFromTitle H RAW title = DEFAULT_TARIFF H RAW"
    if "normalizeTitleLabel H title \<in> fst ` set (TARIFF_ALIASES H)"
    using alias_keys [OF that]
    by (simp add: getTariffInfoFromTitle_key tariffLookupKey_def lookup_default_name)
  have wallet: "TariffDefinition.kind (getTariffInfoFromTitle H RAW title) = Wallet" if "RAW = []"
    using member that by (simp add: TARIFFS_def builtinTariff_def)
  show ?thesis
    using member unmatched blank aliased wallet by blast
qed

lemma example_default:
  "TariffDefinition.kind (DEFAULT_TARIFF asciiHost exampleTariffs) = Wallet"
  "TariffDefinition.code (DEFAULT_TARIFF asciiHost exampleTariffs) = u16 ''CRE''"
  by code_simp+

lemma example_alias_keys:
  "normalizeTitleLabel asciiHost (Some (u16 ''Creditrans'')) \<in> fst ` set (TARIFF_ALIASES asciiHost)"
  "normalizeTitleLabel asciiHost (Some [8212]) \<in> fst ` set (TARIFF_ALIASES asciiHost)"
  by code_simp+

lemma example_unknown:
  "TARIFF_BY_NAME asciiHost exampleTariffs (tariffLookupKey asciiHost (Some (u16 ''Gizatrans 2031''))) = None"
  by code_simp

lemma example_blank: "trim (u16 ''   '') = []"
  by code_simp

text \<open>
  On the example catalog: an alias, the dash, an unknown title, an absent title and a
  blank one all resolve to the default tariff, the wallet \<open>CRE\<close>.
\<close>

theorem tariff_lookup_total_witness:
  "getTariffInfoFromTitle asciiHost exampleTariffs (Some (u16 ''Creditrans''))
     = DEFAULT_TARIFF asciiHost exampleTariffs
   \<and> getTariffInfoFromTitle asciiHost exampleTariffs (Some [8212])
     = DEFAULT_TARIFF asciiHost exampleTariffs
   \<and> getTariffInfoFromTitle asciiHost exampleTariffs (Some (u16 ''Gizatrans 2031''))
     = DEFAULT_TARIFF asciiHost exampleTariffs
   \<and> getTariffInfoFromTitle asciiHost exampleTariffs None
     = DEFAULT_TARIFF asciiHost exampleTariffs
   \<and> getTariffInfoFromTitle asciiHost exampleTariffs (Some (u16 ''   ''))
     = DEFAULT_TARIFF asciiHost exampleTariffs
   \<and> TariffDefinition.kind (DEFAULT_TARIFF asciiHost exampleTariffs) = Wallet
   \<and> TariffDefinition.kind (getTariffInfoFromTitle asciiHost [] (Some (u16 ''Bonobus10''))) = Wallet"
  using tariff_lookup_total [of asciiHost exampleTariffs "Some (u16 ''Creditrans'')"]
    tariff_lookup_total [of asciiHost exampleTariffs "Some [8212]"]
    tariff_lookup_total [of asciiHost exampleTariffs "Some (u16 ''Gizatrans 2031'')"]
    tariff_lookup_total [of asciiHost exampleTariffs None]
    tariff_lookup_total [of asciiHost exampleTariffs "Some (u16 ''   '')"]
    tariff_lookup_total [of asciiHost "[]" "Some (u16 ''Bonobus10'')"]
    example_default(1) example_alias_keys example_unknown example_blank
  by simp

section \<open>Header detection of the table extractor\<close>

lemma findIndex_None: "findIndex P xs = None \<longleftrightarrow> (\<forall>a\<in>set xs. \<not> P a)"
  by (induction xs) auto

lemma findIndex_Some:
  "findIndex P xs = Some i \<Longrightarrow> i < length xs \<and> P (xs ! i) \<and> (\<forall>j<i. \<not> P (xs ! j))"
proof (induction xs arbitrary: i)
  case Nil
  then show ?case by simp
next
  case (Cons a xs)
  show ?case
  proof (cases "P a")
    case True
    with Cons.prems show ?thesis by simp
  next
    case False
    with Cons.prems obtain k where k: "findIndex P xs = Some k" "i = Suc k"
      by auto
    from Cons.IH [OF k(1)] False k(2) show ?thesis
      by (auto simp: nth_Cons split: nat.splits)
  qed
qed

lemma extract_no_header:
  assumes "\<forall>ls\<in>set pageLines. findHeaderIndex ls = None"
  shows "ExtractionResult.records (extractTransactionsFromData H pageLines) = []"
proof -
  have "extractPage H ls n = []" if "ls \<in> set pageLines" for ls n
    using assms that by (simp add: extractPage_def)
  then have "\<forall>p\<in>set (enumerate 0 pageLines). (case p of (i, ls) \<Rightarrow> extractPage H ls (int i + 1)) = []"
    by (auto simp: in_set_enumerate_eq)
  then show ?thesis
    by (simp add: extractTransactionsFromData_def)
qed

text \<open>
  C7, as the code has it. The header of a page is the first line whose text holds the
  three column names \<open>CONT\<close>, \<open>FECHA\<close> and \<open>IMPORTE\<close>, all three, in upper case as
  written (the match is case-sensitive). A page with no such line gives no records, and
  a document of such pages gives an empty result with its page count, no failure.
\<close>

theorem header_detection:
  "(isHeaderLine l \<longleftrightarrow>
      includesStr (lineToString l) (u16 ''CONT'') \<and> includesStr (lineToString l) (u16 ''FECHA'')
      \<and> includesStr (lineToString l) (u16 ''IMPORTE''))
   \<and> (findHeaderIndex lines = None \<longleftrightarrow> (\<forall>a\<in>set lines. \<not> isHeaderLine a))
   \<and> (findHeaderIndex lines = Some i \<longrightarrow>
        i < length lines \<and> isHeaderLine (lines ! i) \<and> (\<forall>j<i. \<not> isHeaderLine (lines ! j)))
   \<and> (findHeaderIndex lines = None \<longrightarrow> extractPage H lines n = [])
   \<and> ((\<forall>ls\<in>set pageLines. findHeaderIndex ls = None) \<longrightarrow>
        ExtractionResult.records (extractTransactionsFromData H pageLines) = []
        \<and> pages (extractTransactionsFromData H pageLines) = length pageLines)"
proof -
  have a: "isHeaderLine l \<longleftrightarrow>
      includesStr (lineToString l) (u16 ''CONT'') \<and> includesStr (lineToString l) (u16 ''FECHA'')
      \<and> includesStr (lineToString l) (u16 ''IMPORTE'')"
    by (simp add: isHeaderLine_def Let_def)
  have b: "findHeaderIndex lines = None \<longleftrightarrow> (\<forall>a\<in>set lines. \<not> isHeaderLine a)"
    by (simp add: findHeaderIndex_def findIndex_None)
  have c: "findHeaderIndex lines = Some i \<longrightarrow>
        i < length lines \<and> isHeaderLine (lines ! i) \<and> (\<forall>j<i. \<not> isHeaderLine (lines ! j))"
    using findIndex_Some [of isHeaderLine lines i] by (simp add: findHeaderIndex_def)
  have d: "findHeaderIndex lines = None \<longrightarrow> extractPage H lines n = []"
    by (simp add: extractPage_def)
  have e: "(\<forall>ls\<in>set pageLines. findHeaderIndex ls = None) \<longrightarrow>
        ExtractionResult.records (extractTransactionsFromData H pageLines) = []
        \<and> pages (extractTransactionsFromData H pageLines) = length pageLines"
    using extract_no_header [of pageLines H] by (simp add: extractTransactionsFromData_def)
  show ?thesis
    by (intro conjI) (rule a, rule b, rule c, rule d, rule e)
qed

lemma upperHeader_found: "findHeaderIndex [upperHeader, dataLine] = Some 0"
  by code_simp

lemma dataLine_no_header: "findHeaderIndex [dataLine] = None"
  by code_simp

text \<open>
  The example page: its upper-case header is found at index 0; the data line alone is a
  page without a header and gives no records.
\<close>

theorem header_detection_witness:
  "isHeaderLine upperHeader
   \<and> \<not> isHeaderLine dataLine
   \<and> extractPage asciiHost [dataLine] 1 = []
   \<and> ExtractionResult.records (extractTransactionsFromData asciiHost [[dataLine], []]) = []
   \<and> pages (extractTransactionsFromData asciiHost [[dataLine], []]) = 2"
proof -
  have none: "\<forall>ls\<in>set [[dataLine], []]. findHeaderIndex ls = None"
    using dataLine_no_header by (simp add: findHeaderIndex_def)
  note up = header_detection [of upperHeader "[upperHeader, dataLine]" 0 asciiHost 1 "[[dataLine], []]"]
  note dt = header_detection [of dataLine "[dataLine]" 0 asciiHost 1 "[[dataLine], []]"]
  from up have "findHeaderIndex [upperHeader, dataLine] = Some 0
      \<longrightarrow> isHeaderLine ([upperHeader, dataLine] ! 0)"
    by blast
  with upperHeader_found have 1: "isHeaderLine upperHeader"
    by simp
  from dt have "findHeaderIndex [dataLine] = None \<longleftrightarrow> (\<forall>a\<in>set [dataLine]. \<not> isHeaderLine a)"
    by blast
  with dataLine_no_header have 2: "\<not> isHeaderLine dataLine"
    by simp
  from dt dataLine_no_header have 3: "extractPage asciiHost [dataLine] 1 = []"
    by blast
  from dt none have 4: "ExtractionResult.records (extractTransactionsFromData asciiHost [[dataLine], []]) = []
      \<and> pages (extractTransactionsFromData asciiHost [[dataLine], []]) = 2"
    by simp
  from 1 2 3 4 show ?thesis by blast
qed

lemma lowerHeader_not_found: "findHeaderIndex [lowerHeader, dataLine] = None"
  by code_simp

lemma lowerHeader_names:
  "testIgnoreCase (u16 ''CONT'') (lineToString lowerHeader)"
  "testIgnoreCase (u16 ''FECHA'') (lineToString lowerHeader)"
  "testIgnoreCase (u16 ''IMPORTE'') (lineToString lowerHeader)"
  by code_simp+

lemma upperHeader_page: "length (extractPage asciiHost [upperHeader, dataLine] 1) = 1"
  by code_simp

text \<open>
  C7 as the specification states it fails: the line
  \<open>Cont Fecha Transaccion Operador Equipo Importe Saldo Titulo Perfil Etapa\<close> holds the
  three column names when case is ignored (the column patterns, which do ignore case,
  match it), yet it is not taken as the header, and the page gives no records; with
  the header in upper case the same page gives its one record.
\<close>

theorem header_detection_counterexample:
  "testIgnoreCase (u16 ''CONT'') (lineToString lowerHeader)
   \<and> testIgnoreCase (u16 ''FECHA'') (lineToString lowerHeader)
   \<and> testIgnoreCase (u16 ''IMPORTE'') (lineToString lowerHeader)
   \<and> findHeaderIndex [lowerHeader, dataLine] = None
   \<and> extractPage asciiHost [lowerHeader, dataLine] 1 = []
   \<and> length (extractPage asciiHost [upperHeader, dataLine] 1) = 1"
  using lowerHeader_names lowerHeader_not_found upperHeader_page
  by (simp add: extractPage_def)

section \<open>Monetary parsing\<close>

lemma parseAmount_cases:
  "parseAmount H v = Finite 0 \<or> (\<exists>s. v = Some s \<and> parseAmount H v = parseFloat H (amountText s)
      \<and> isFiniteNumber (parseFloat H (amountText s)))"
  by (auto simp: parseAmount_def Let_def split: option.splits)

lemma numberValue_finite: "isFiniteNumber n \<Longrightarrow> Finite (numberValue n) = n"
  by (cases n) (simp_all add: isFiniteNumber_def numberValue_def)

text \<open>
  C10. For every value, absent, empty or any text, and whatever \<open>parseFloat\<close> returns on
  it, \<open>parseAmount\<close> returns a finite number; it returns 0 for an absent or empty value
  and whenever \<open>parseFloat\<close> does not return a finite number on the normalised text.
  The \<open>importe\<close> and \<open>saldo\<close> of every record that \<open>normalizeRow\<close> builds, and so of every
  record of a page, are these finite numbers.
\<close>

theorem parseAmount_total:
  "isFiniteNumber (parseAmount H v)
   \<and> (v = None \<or> v = Some [] \<longrightarrow> parseAmount H v = Finite 0)
   \<and> (v = Some s \<and> \<not> isFiniteNumber (parseFloat H (amountText s)) \<longrightarrow> parseAmount H v = Finite 0)
   \<and> (v = Some s \<and> s \<noteq> [] \<and> isFiniteNumber (parseFloat H (amountText s))
        \<longrightarrow> parseAmount H v = parseFloat H (amountText s))
   \<and> (normalizeRow H row pg = Some r \<longrightarrow>
        Finite (importe r) = parseAmount H (Some (row Importe))
        \<and> Finite (saldo r) = parseAmount H (Some (row Saldo)))
   \<and> (\<forall>q\<in>set (extractPage H lines pg).
        \<exists>t u. Finite (importe q) = parseAmount H (Some t) \<and> Finite (saldo q) = parseAmount H (Some u))"
proof -
  have fin: "isFiniteNumber (parseAmount H w)" for w
    using parseAmount_cases [of H w] by (auto simp: isFiniteNumber_def)
  have row: "Finite (importe r') = parseAmount H (Some (row' Importe))
        \<and> Finite (saldo r') = parseAmount H (Some (row' Saldo))"
    if "normalizeRow H row' pg' = Some r'" for row' pg' r'
    using that numberValue_finite [OF fin]
    by (auto simp: normalizeRow_def Let_def split: if_splits)
  have page: "\<exists>t u. Finite (importe q) = parseAmount H (Some t) \<and> Finite (saldo q) = parseAmount H (Some u)"
    if "q \<in> set (extractPage H lines pg)" for q
  proof -
    from that obtain row' where "normalizeRow H row' pg = Some q"
      by (auto simp: extractPage_def Let_def split: option.splits)
    from row [OF this] show ?thesis by blast
  qed
  show ?thesis
    using fin row page by (auto simp: parseAmount_def Let_def)
qed

lemma example_parse:
  "parseFloat asciiHost (amountText (u16 ''1.018,45'')) = Finite (4479190469233869 / 4398046511104)"
  "parseFloat asciiHost (amountText (u16 ''abc'')) = NaN"
  "parseFloat asciiHost (amountText (u16 ''Infinity'')) = PosInfinity"
  by code_simp+

lemma example_row: "normalizeRow asciiHost exampleRow 1 = Some exampleParsed"
  by code_simp

text \<open>
  On the example host: \<open>1.018,45\<close> is read as the double 1018.45; a text with no
  number and the text \<open>Infinity\<close> give 0; the row of the example page has the amount
  -1.55 and the balance 1018.45.
\<close>

theorem parseAmount_total_witness:
  "parseAmount asciiHost (Some (u16 ''1.018,45'')) = Finite (4479190469233869 / 4398046511104)
   \<and> parseAmount asciiHost (Some (u16 ''abc'')) = Finite 0
   \<and> parseAmount asciiHost (Some (u16 ''Infinity'')) = Finite 0
   \<and> parseAmount asciiHost None = Finite 0
   \<and> parseAmount asciiHost (Some (exampleRow Importe))
       = Finite (- (6980579422424269 / 4503599627370496))
   \<and> parseAmount asciiHost (Some (exampleRow Saldo))
       = Finite (4479190469233869 / 4398046511104)"
proof -
  have ne: "u16 ''1.018,45'' \<noteq> []" "u16 ''abc'' \<noteq> []" "u16 ''Infinity'' \<noteq> []"
    by (simp_all add: u16_def)
  from parseAmount_total [of asciiHost "Some (u16 ''1.018,45'')" "u16 ''1.018,45''" exampleRow 1 exampleParsed "[]"]
    parseAmount_total [of asciiHost "Some (u16 ''abc'')" "u16 ''abc''" exampleRow 1 exampleParsed "[]"]
    parseAmount_total [of asciiHost "Some (u16 ''Infinity'')" "u16 ''Infinity''" exampleRow 1 exampleParsed "[]"]
    parseAmount_total [of asciiHost None "[]" exampleRow 1 exampleParsed "[]"]
    example_parse example_row ne
  show ?thesis
    by (simp add: isFiniteNumber_def exampleParsed_def)
qed

section \<open>The builders leave the caller's array as it is\<close>

lemma spread_sort_frame:
  assumes "spreadCopy h a = (s, h1)" and "h2 = sortInPlace f h1 s" and "b < nextAddr h"
  shows "cells h2 b = cells h b" and "readArray h2 s = sort_key f (readArray h a)"
  using assms by (auto simp: spreadCopy_def sortInPlace_def readArray_def)

text \<open>
  C9. Called on the address of the caller's array, each builder leaves that array, and
  every other array of the caller, with the same records in the same order; its result
  is the one computed from those records. The sort works on the new array only.
\<close>

theorem builders_frame:
  assumes "b < nextAddr h"
  shows "cells (snd (buildJourneyBlocksOn H h a)) b = cells h b
       \<and> cells (snd (buildFareInsightsOn H RAW h a)) b = cells h b
       \<and> fst (buildJourneyBlocksOn H h a) = buildJourneyBlocks H (readArray h a)
       \<and> fst (buildFareInsightsOn H RAW h a) = buildFareInsights H RAW (readArray h a)"
proof -
  obtain s h1 where sp: "spreadCopy h a = (s, h1)"
    by (cases "spreadCopy h a")
  note fr = spread_sort_frame [OF sp refl assms, of "getRecordDate H"]
  show ?thesis
    by (simp add: buildJourneyBlocksOn_def buildFareInsightsOn_def sp fr
        buildJourneyBlocks_def buildFareInsights_def Let_def)
qed

text \<open>
  The caller's array of the example holds the exit before the entry, and still does
  after both calls, while the journey built from it pairs the entry with the exit.
\<close>

theorem builders_frame_witness:
  "cells (snd (buildJourneyBlocksOn asciiHost exampleHeap 0)) 0 = Some [exExit, exEntry]
   \<and> cells (snd (buildFareInsightsOn asciiHost exampleTariffs exampleHeap 0)) 0
       = Some [exExit, exEntry]
   \<and> fst (buildJourneyBlocksOn asciiHost exampleHeap 0)
       = buildJourneyBlocks asciiHost [exExit, exEntry]"
proof -
  have "(0::nat) < nextAddr exampleHeap"
    by (simp add: exampleHeap_def)
  from builders_frame [OF this, of asciiHost 0 exampleTariffs] show ?thesis
    by (simp add: exampleHeap_def readArray_def)
qed

end
